theory Spec2Isabelle
  imports Complex_Main "HOL-Library.Monad_Syntax"
begin

section \<open>Board model (temp.cpp, utility structures)\<close>

text \<open>
  The agent of \<^verbatim>\<open>client_server/temp.cpp\<close> works on a grid of cells. A cell is three
  strings, a position two machine integers. Coordinates never leave the range of the
  board, so the C++ \<^verbatim>\<open>int\<close> is modelled by \<^typ>\<open>int\<close>.
\<close>

record Position =
  px :: int
  py :: int

record Cell =
  owner :: string
  side :: string
  orientation :: string

definition Cell_empty :: Cell where
  "Cell_empty = \<lparr>owner = '''', side = '''', orientation = ''''\<rparr>"

definition isEmpty :: "Cell \<Rightarrow> bool" where
  "isEmpty c = (owner c = '''')"

type_synonym board = "Cell list list"

text \<open>
  \<^verbatim>\<open>board[y][x]\<close>. The source reads a \<^verbatim>\<open>std::vector\<close> without a range check; every read
  of the functions below is guarded by \<open>in_bounds\<close> against \<open>rows\<close> and \<open>cols\<close>, and
  \<open>wf_board\<close> says that the grid really has that many rows and columns (\<open>choose\<close> builds
  it so). Outside of that the C++ behaviour is undefined and so is \<open>cell_at\<close>.
\<close>

definition cell_at :: "board \<Rightarrow> int \<Rightarrow> int \<Rightarrow> Cell" where
  "cell_at b x y = b ! nat y ! nat x"

definition wf_board :: "board \<Rightarrow> int \<Rightarrow> int \<Rightarrow> bool" where
  "wf_board b rows cols =
     (0 \<le> rows \<and> 0 \<le> cols \<and> length b = nat rows \<and> list_all (\<lambda>r. length r = nat cols) b)"

definition in_bounds :: "int \<Rightarrow> int \<Rightarrow> int \<Rightarrow> int \<Rightarrow> bool" where
  "in_bounds x y rows cols = (x \<ge> 0 \<and> x < cols \<and> y \<ge> 0 \<and> y < rows)"

definition top_score_row :: int where
  "top_score_row = 2"

definition bottom_score_row :: "int \<Rightarrow> int" where
  "bottom_score_row rows = rows - 3"

definition get_opponent :: "string \<Rightarrow> string" where
  "get_opponent player = (if player = ''circle'' then ''square'' else ''circle'')"

definition is_opponent_score_cell ::
  "int \<Rightarrow> int \<Rightarrow> string \<Rightarrow> int \<Rightarrow> int \<Rightarrow> int list \<Rightarrow> bool" where
  "is_opponent_score_cell x y player rows cols score_cols =
     (let target_row = (if player = ''circle'' then bottom_score_row rows else top_score_row)
      in if y \<noteq> target_row then False else x \<in> set score_cols)"

definition is_my_score_cell ::
  "int \<Rightarrow> int \<Rightarrow> string \<Rightarrow> int \<Rightarrow> int \<Rightarrow> int list \<Rightarrow> bool" where
  "is_my_score_cell x y player rows cols score_cols =
     (let target_row = (if player = ''circle'' then top_score_row else bottom_score_row rows)
      in if y \<noteq> target_row then False else x \<in> set score_cols)"

section \<open>Terminal-win detection\<close>

text \<open>
  \<open>check_win\<close> of temp.cpp: one pass over the score columns, counting circle stones in
  the top score row and square stones in the bottom one, against \<open>WIN_COUNT = 4\<close>.
\<close>

fun check_win_counts :: "board \<Rightarrow> int \<Rightarrow> int \<Rightarrow> int list \<Rightarrow> nat \<times> nat \<Rightarrow> nat \<times> nat" where
  "check_win_counts b rows cols [] (ccount, scount) = (ccount, scount)"
| "check_win_counts b rows cols (x # xs) (ccount, scount) =
     (let top = top_score_row; bot = bottom_score_row rows;
          ccount' = (if in_bounds x top rows cols \<and> \<not> isEmpty (cell_at b x top)
                        \<and> owner (cell_at b x top) = ''circle'' \<and> side (cell_at b x top) = ''stone''
                     then ccount + 1 else ccount);
          scount' = (if in_bounds x bot rows cols \<and> \<not> isEmpty (cell_at b x bot)
                        \<and> owner (cell_at b x bot) = ''square'' \<and> side (cell_at b x bot) = ''stone''
                     then scount + 1 else scount)
      in check_win_counts b rows cols xs (ccount', scount'))"

definition win_result :: "nat \<Rightarrow> nat \<times> nat \<Rightarrow> string" where
  "win_result WIN_COUNT cs =
     (if fst cs \<ge> WIN_COUNT then ''circle'' else if snd cs \<ge> WIN_COUNT then ''square'' else '''')"

definition check_win :: "board \<Rightarrow> int \<Rightarrow> int \<Rightarrow> int list \<Rightarrow> string" where
  "check_win b rows cols score_cols =
     win_result 4 (check_win_counts b rows cols score_cols (0, 0))"

text \<open>
  temp2.cpp, the later version of the same agent, differs here: the threshold is
  \<open>get_win_count(board.size())\<close>.
\<close>

definition get_win_count :: "int \<Rightarrow> nat" where
  "get_win_count board_size =
     (if board_size = 15 then 5 else if board_size = 17 then 6 else 4)"

definition check_win2 :: "board \<Rightarrow> int \<Rightarrow> int \<Rightarrow> int list \<Rightarrow> string" where
  "check_win2 b rows cols score_cols =
     win_result (get_win_count (int (length b))) (check_win_counts b rows cols score_cols (0, 0))"

section \<open>River flow\<close>

text \<open>
  The inner \<^verbatim>\<open>while (in_bounds(nx, ny, rows, cols))\<close> of \<open>get_river_flow_destinations\<close>:
  one walk from \<open>(nx, ny)\<close> in direction \<open>(dx, dy)\<close>, appending to \<open>destinations\<close> and to
  the queue. The source only walks along the four unit vectors; the test on \<open>(dx, dy)\<close>
  keeps the walk total for the null vector, which is never passed.
\<close>

function flow_scan ::
  "board \<Rightarrow> int \<Rightarrow> int \<Rightarrow> int \<Rightarrow> int \<Rightarrow> int \<Rightarrow> int \<Rightarrow> string \<Rightarrow> int \<Rightarrow> int \<Rightarrow> int list
     \<Rightarrow> Position list \<times> Position list \<Rightarrow> Position list \<times> Position list" where
  "flow_scan b nx ny dx dy sx sy player rows cols score_cols (destinations, queue) =
     (if in_bounds nx ny rows cols \<and> (dx \<noteq> 0 \<or> dy \<noteq> 0) then
        if is_opponent_score_cell nx ny player rows cols score_cols then (destinations, queue)
        else if isEmpty (cell_at b nx ny) then
          flow_scan b (nx + dx) (ny + dy) dx dy sx sy player rows cols score_cols
            (destinations @ [\<lparr>px = nx, py = ny\<rparr>], queue)
        else if nx = sx \<and> ny = sy then
          flow_scan b (nx + dx) (ny + dy) dx dy sx sy player rows cols score_cols
            (destinations, queue)
        else if side (cell_at b nx ny) = ''river'' then
          (destinations, queue @ [\<lparr>px = nx, py = ny\<rparr>])
        else (destinations, queue)
      else (destinations, queue))"
  by pat_completeness auto
termination
  by (relation "measure (\<lambda>(b, nx, ny, dx, dy, sx, sy, player, rows, cols, score_cols, acc).
         if dx > 0 then nat (cols - nx) else if dx < 0 then nat (nx + 1)
         else if dy > 0 then nat (rows - ny) else nat (ny + 1))")
     (auto simp: in_bounds_def)

declare flow_scan.simps [simp del]

definition cells_in_bounds :: "int \<Rightarrow> int \<Rightarrow> Position set" where
  "cells_in_bounds rows cols = {p. in_bounds (px p) (py p) rows cols}"

lemma finite_cells_in_bounds: "finite (cells_in_bounds rows cols)"
proof -
  have "cells_in_bounds rows cols \<subseteq> (\<lambda>(a, b). \<lparr>px = a, py = b\<rparr>) ` ({0..<cols} \<times> {0..<rows})"
  proof
    fix p assume "p \<in> cells_in_bounds rows cols"
    then have "(px p, py p) \<in> {0..<cols} \<times> {0..<rows}"
      by (simp add: cells_in_bounds_def in_bounds_def)
    moreover have "p = (\<lambda>(a, b). \<lparr>px = a, py = b\<rparr>) (px p, py p)"
      by simp
    ultimately show "p \<in> (\<lambda>(a, b). \<lparr>px = a, py = b\<rparr>) ` ({0..<cols} \<times> {0..<rows})"
      by (rule rev_image_eqI)
  qed
  then show ?thesis
    by (rule finite_subset) simp
qed

lemma card_unvisited_less:
  assumes "pos \<notin> visited" and "in_bounds (px pos) (py pos) rows cols"
  shows "card (cells_in_bounds rows cols - insert pos visited)
           < card (cells_in_bounds rows cols - visited)"
proof -
  have "pos \<in> cells_in_bounds rows cols - visited"
    using assms by (simp add: cells_in_bounds_def)
  then show ?thesis
    by (metis Diff_insert card_Diff1_less finite_Diff finite_cells_in_bounds)
qed

definition flow_dirs :: "Cell \<Rightarrow> (int \<times> int) list" where
  "flow_dirs cell =
     (if orientation cell = ''horizontal'' then [(1, 0), (-1, 0)] else [(0, 1), (0, -1)])"

text \<open>
  The cell a popped position is read as: under \<open>river_push\<close> the entry position
  \<open>(rx, ry)\<close> is read as the pushing river at \<open>(sx, sy)\<close>.
\<close>

definition flow_cell :: "board \<Rightarrow> int \<Rightarrow> int \<Rightarrow> int \<Rightarrow> int \<Rightarrow> bool \<Rightarrow> Position \<Rightarrow> Cell" where
  "flow_cell b rx ry sx sy river_push pos =
     (if river_push \<and> px pos = rx \<and> py pos = ry then cell_at b sx sy
      else cell_at b (px pos) (py pos))"

text \<open>The \<^verbatim>\<open>for (auto [dx, dy] : dirs)\<close> of one river cell.\<close>

definition flow_from ::
  "board \<Rightarrow> Position \<Rightarrow> Cell \<Rightarrow> int \<Rightarrow> int \<Rightarrow> string \<Rightarrow> int \<Rightarrow> int \<Rightarrow> int list
     \<Rightarrow> Position list \<times> Position list \<Rightarrow> Position list \<times> Position list" where
  "flow_from b pos cell sx sy player rows cols score_cols acc =
     fold (\<lambda>(dx, dy) acc.
             flow_scan b (px pos + dx) (py pos + dy) dx dy sx sy player rows cols score_cols acc)
          (flow_dirs cell) acc"

text \<open>
  The outer \<^verbatim>\<open>while (!queue.empty())\<close>: \<open>queue\<close> is the deque, \<open>visited\<close> the
  unordered set, \<open>destinations\<close> the vector under construction.
\<close>

function flow_loop ::
  "board \<Rightarrow> int \<Rightarrow> int \<Rightarrow> int \<Rightarrow> int \<Rightarrow> string \<Rightarrow> int \<Rightarrow> int \<Rightarrow> int list \<Rightarrow> bool
     \<Rightarrow> Position list \<Rightarrow> Position set \<Rightarrow> Position list \<Rightarrow> Position list" where
  "flow_loop b rx ry sx sy player rows cols score_cols river_push queue visited destinations =
     (case queue of
        [] \<Rightarrow> destinations
      | pos # rest \<Rightarrow>
          if pos \<in> visited \<or> \<not> in_bounds (px pos) (py pos) rows cols then
            flow_loop b rx ry sx sy player rows cols score_cols river_push rest visited destinations
          else if isEmpty (flow_cell b rx ry sx sy river_push pos) then
            flow_loop b rx ry sx sy player rows cols score_cols river_push rest
              (insert pos visited)
              (if \<not> is_opponent_score_cell (px pos) (py pos) player rows cols score_cols
               then destinations @ [pos] else destinations)
          else if side (flow_cell b rx ry sx sy river_push pos) \<noteq> ''river'' then
            flow_loop b rx ry sx sy player rows cols score_cols river_push rest
              (insert pos visited) destinations
          else
            flow_loop b rx ry sx sy player rows cols score_cols river_push
              (snd (flow_from b pos (flow_cell b rx ry sx sy river_push pos) sx sy player rows cols
                      score_cols (destinations, rest)))
              (insert pos visited)
              (fst (flow_from b pos (flow_cell b rx ry sx sy river_push pos) sx sy player rows cols
                      score_cols (destinations, rest))))"
  by pat_completeness auto
termination
proof (relation "inv_image (less_than <*lex*> less_than)
         (\<lambda>(b, rx, ry, sx, sy, player, rows, cols, score_cols, river_push, queue, visited, destinations).
            (card (cells_in_bounds rows cols - visited), length queue))", goal_cases)
  case 1
  show ?case by (intro wf_inv_image wf_lex_prod wf_less_than)
next
  case (2 b rx ry sx sy player rows cols score_cols river_push queue visited destinations pos rest)
  then show ?case by simp
next
  case (3 b rx ry sx sy player rows cols score_cols river_push queue visited destinations pos rest)
  then show ?case by (simp add: card_unvisited_less)
next
  case (4 b rx ry sx sy player rows cols score_cols river_push queue visited destinations pos rest)
  then show ?case by (simp add: card_unvisited_less)
next
  case (5 b rx ry sx sy player rows cols score_cols river_push queue visited destinations pos rest)
  then show ?case by (simp add: card_unvisited_less)
qed

declare flow_loop.simps [simp del]

text \<open>The final pass: keep the first occurrence of every destination.\<close>

fun remove_duplicates :: "Position list \<Rightarrow> Position set \<Rightarrow> Position list \<Rightarrow> Position list" where
  "remove_duplicates [] seen out = out"
| "remove_duplicates (d # ds) seen out =
     (if d \<notin> seen then remove_duplicates ds (insert d seen) (out @ [d])
      else remove_duplicates ds seen out)"

definition get_river_flow_destinations ::
  "board \<Rightarrow> int \<Rightarrow> int \<Rightarrow> int \<Rightarrow> int \<Rightarrow> string \<Rightarrow> int \<Rightarrow> int \<Rightarrow> int list \<Rightarrow> bool \<Rightarrow> Position list" where
  "get_river_flow_destinations b rx ry sx sy player rows cols score_cols river_push =
     remove_duplicates
       (flow_loop b rx ry sx sy player rows cols score_cols river_push
          [\<lparr>px = rx, py = ry\<rparr>] {} [])
       {} []"


subsection \<open>Where the flow lands\<close>

lemma remove_duplicates_distinct:
  "distinct out \<Longrightarrow> set out \<subseteq> seen \<Longrightarrow> distinct (remove_duplicates ds seen out)"
  by (induction ds seen out rule: remove_duplicates.induct) auto

lemma remove_duplicates_subset:
  "set (remove_duplicates ds seen out) \<subseteq> set ds \<union> set out"
  by (induction ds seen out rule: remove_duplicates.induct) auto

text \<open>Every direction the flow walks along is a unit vector, so the test that keeps
  \<open>flow_scan\<close> total never fires.\<close>

lemma flow_dirs_unit: "(dx, dy) \<in> set (flow_dirs cell) \<Longrightarrow> dx \<noteq> 0 \<or> dy \<noteq> 0"
  by (auto simp: flow_dirs_def split: if_splits)

definition landing_ok :: "board \<Rightarrow> string \<Rightarrow> int \<Rightarrow> int \<Rightarrow> int list \<Rightarrow> Position \<Rightarrow> bool" where
  "landing_ok b player rows cols score_cols p =
     (in_bounds (px p) (py p) rows cols \<and> isEmpty (cell_at b (px p) (py p))
      \<and> \<not> is_opponent_score_cell (px p) (py p) player rows cols score_cols)"

lemma flow_scan_landing:
  "list_all (landing_ok b player rows cols score_cols) (fst acc) \<Longrightarrow>
   list_all (landing_ok b player rows cols score_cols)
     (fst (flow_scan b nx ny dx dy sx sy player rows cols score_cols acc))"
proof (induction b nx ny dx dy sx sy player rows cols score_cols acc rule: flow_scan.induct)
  case (1 b nx ny dx dy sx sy player rows cols score_cols destinations queue)
  have here: "in_bounds nx ny rows cols \<Longrightarrow> isEmpty (cell_at b nx ny) \<Longrightarrow>
      \<not> is_opponent_score_cell nx ny player rows cols score_cols \<Longrightarrow>
      landing_ok b player rows cols score_cols \<lparr>px = nx, py = ny\<rparr>"
    by (simp add: landing_ok_def)
  show ?case
    using 1 here by (subst flow_scan.simps) simp
qed

lemma flow_from_landing:
  assumes "list_all (landing_ok b player rows cols score_cols) (fst acc)"
  shows "list_all (landing_ok b player rows cols score_cols)
     (fst (flow_from b pos cell sx sy player rows cols score_cols acc))"
proof -
  have "list_all (landing_ok b player rows cols score_cols) (fst a) \<Longrightarrow>
        list_all (landing_ok b player rows cols score_cols)
          (fst (fold (\<lambda>(dx, dy) acc.
             flow_scan b (px pos + dx) (py pos + dy) dx dy sx sy player rows cols score_cols acc)
             ds a))" for ds a
    by (induction ds arbitrary: a) (auto simp: flow_scan_landing split: prod.splits)
  then show ?thesis
    using assms by (simp add: flow_from_def)
qed

lemma flow_loop_landing:
  "river_push \<longrightarrow> \<not> isEmpty (cell_at b sx sy) \<Longrightarrow>
   list_all (landing_ok b player rows cols score_cols) destinations \<Longrightarrow>
   list_all (landing_ok b player rows cols score_cols)
     (flow_loop b rx ry sx sy player rows cols score_cols river_push queue visited destinations)"
proof (induction b rx ry sx sy player rows cols score_cols river_push queue visited destinations
       rule: flow_loop.induct)
  case (1 b rx ry sx sy player rows cols score_cols river_push queue visited destinations)
  show ?case
  proof (cases queue)
    case Nil
    then show ?thesis using 1 by (subst flow_loop.simps) simp
  next
    case (Cons pos rest)
    have here: "in_bounds (px pos) (py pos) rows cols \<Longrightarrow>
      isEmpty (flow_cell b rx ry sx sy river_push pos) \<Longrightarrow>
      \<not> is_opponent_score_cell (px pos) (py pos) player rows cols score_cols \<Longrightarrow>
      landing_ok b player rows cols score_cols pos"
      using "1.prems"(1) by (auto simp add: landing_ok_def flow_cell_def split: if_splits)
    show ?thesis
      using 1 Cons here
      by (subst flow_loop.simps) (auto simp add: flow_from_landing)
  qed
qed

lemma get_river_flow_destinations_landing:
  assumes "river_push \<longrightarrow> \<not> isEmpty (cell_at b sx sy)"
  shows "list_all (landing_ok b player rows cols score_cols)
           (get_river_flow_destinations b rx ry sx sy player rows cols score_cols river_push)"
proof -
  let ?ds = "flow_loop b rx ry sx sy player rows cols score_cols river_push
               [\<lparr>px = rx, py = ry\<rparr>] {} []"
  have "list_all (landing_ok b player rows cols score_cols) ?ds"
    using assms by (intro flow_loop_landing) simp_all
  then show ?thesis
    using remove_duplicates_subset [of ?ds "{}" "[]"]
    by (auto simp: get_river_flow_destinations_def list_all_iff)
qed

section \<open>Moves as string-keyed records\<close>

text \<open>
  The agent keeps a move as a \<^verbatim>\<open>std::unordered_map<std::string, std::string>\<close>,
  with the coordinates printed by \<^verbatim>\<open>std::to_string\<close> and read back by
  \<^verbatim>\<open>std::stoi\<close>. \<open>to_string\<close> prints a decimal numeral with a leading minus sign for a
  negative number. \<open>stoi\<close> skips white space, reads an optional sign and the longest
  run of digits, and throws when there is no digit (\<^verbatim>\<open>std::invalid_argument\<close>) or when
  the value does not fit 32 bits (\<^verbatim>\<open>std::out_of_range\<close>); both are the result \<open>None\<close>.
  The map is a list of key and value pairs read with \<open>map_of\<close>; every move has each
  key once, and the source only looks keys up.
\<close>

type_synonym move = "(string \<times> string) list"

definition digit_chars :: string where
  "digit_chars = ''0123456789''"

definition is_digit :: "char \<Rightarrow> bool" where
  "is_digit c = (c \<in> set digit_chars)"

definition digit_value :: "char \<Rightarrow> nat" where
  "digit_value c = (case map_of (zip digit_chars [0..<10]) c of Some d \<Rightarrow> d | None \<Rightarrow> 0)"

function string_of_nat :: "nat \<Rightarrow> string" where
  "string_of_nat n =
     (if n < 10 then [digit_chars ! n] else string_of_nat (n div 10) @ [digit_chars ! (n mod 10)])"
  by pat_completeness auto
termination
  by (relation "measure id") auto

declare string_of_nat.simps [simp del]

definition to_string :: "int \<Rightarrow> string" where
  "to_string i = (if i < 0 then CHR ''-'' # string_of_nat (nat (- i)) else string_of_nat (nat i))"

definition isspace :: "char \<Rightarrow> bool" where
  "isspace c = (c \<in> set [CHR '' '', CHR 0x09, CHR 0x0A, CHR 0x0B, CHR 0x0C, CHR 0x0D])"

definition digits_value :: "string \<Rightarrow> nat" where
  "digits_value ds = foldl (\<lambda>a c. 10 * a + digit_value c) 0 ds"

definition stoi :: "string \<Rightarrow> int option" where
  "stoi s =
     (let s1 = dropWhile isspace s;
          neg = (s1 \<noteq> [] \<and> hd s1 = CHR ''-'');
          s2 = (if s1 \<noteq> [] \<and> (hd s1 = CHR ''-'' \<or> hd s1 = CHR ''+'') then tl s1 else s1);
          ds = takeWhile is_digit s2;
          v = (if neg then - int (digits_value ds) else int (digits_value ds))
      in if ds = [] then None
         else if v < - 2147483648 \<or> 2147483647 < v then None
         else Some v)"

text \<open>\<^verbatim>\<open>move.at(key)\<close> throws when the key is missing; \<^verbatim>\<open>std::stoi(move.at(key))\<close>
  throws also when the value is no number.\<close>

definition move_int :: "move \<Rightarrow> string \<Rightarrow> int option" where
  "move_int m key = (case map_of m key of None \<Rightarrow> None | Some s \<Rightarrow> stoi s)"

definition mk_move :: "int \<Rightarrow> int \<Rightarrow> Position \<Rightarrow> move" where
  "mk_move x y target =
     [(''action'', ''move''), (''from_x'', to_string x), (''from_y'', to_string y),
      (''to_x'', to_string (px target)), (''to_y'', to_string (py target))]"

definition mk_push :: "int \<Rightarrow> int \<Rightarrow> Position \<times> Position \<Rightarrow> move" where
  "mk_push x y tp =
     [(''action'', ''push''), (''from_x'', to_string x), (''from_y'', to_string y),
      (''to_x'', to_string (px (fst tp))), (''to_y'', to_string (py (fst tp))),
      (''pushed_x'', to_string (px (snd tp))), (''pushed_y'', to_string (py (snd tp)))]"

definition mk_flip_to :: "int \<Rightarrow> int \<Rightarrow> string \<Rightarrow> move" where
  "mk_flip_to x y orient =
     [(''action'', ''flip''), (''from_x'', to_string x), (''from_y'', to_string y),
      (''orientation'', orient)]"

definition mk_flip :: "int \<Rightarrow> int \<Rightarrow> move" where
  "mk_flip x y =
     [(''action'', ''flip''), (''from_x'', to_string x), (''from_y'', to_string y)]"

definition mk_rotate :: "int \<Rightarrow> int \<Rightarrow> move" where
  "mk_rotate x y =
     [(''action'', ''rotate''), (''from_x'', to_string x), (''from_y'', to_string y)]"

section \<open>Move generation\<close>

definition dirs4 :: "(int \<times> int) list" where
  "dirs4 = [(1, 0), (-1, 0), (0, 1), (0, -1)]"

text \<open>
  One direction of the \<^verbatim>\<open>for (auto [dx, dy] : dirs)\<close> of \<open>generate_all_valid_moves\<close>, for
  the piece at \<open>(x, y)\<close>: it extends \<open>move_targets\<close> and \<open>push_targets\<close>.
\<close>

definition target_step ::
  "board \<Rightarrow> int \<Rightarrow> int \<Rightarrow> string \<Rightarrow> int \<Rightarrow> int \<Rightarrow> int list \<Rightarrow> int \<times> int
     \<Rightarrow> Position list \<times> (Position \<times> Position) list
     \<Rightarrow> Position list \<times> (Position \<times> Position) list" where
  "target_step b x y current_player rows cols score_cols d acc =
     (let dx = fst d; dy = snd d; tx = x + dx; ty = y + dy;
          move_targets = fst acc; push_targets = snd acc; p = cell_at b x y
      in if \<not> in_bounds tx ty rows cols then acc
         else if is_opponent_score_cell tx ty current_player rows cols score_cols then acc
         else
           let target = cell_at b tx ty
           in if isEmpty target then (move_targets @ [\<lparr>px = tx, py = ty\<rparr>], push_targets)
              else if side target = ''river'' then
                (move_targets @ get_river_flow_destinations b tx ty x y current_player rows cols
                                  score_cols False,
                 push_targets)
              else if side p = ''stone'' then
                let qx = tx + dx; qy = ty + dy; pushed_player = owner target
                in if in_bounds qx qy rows cols \<and> isEmpty (cell_at b qx qy)
                      \<and> \<not> is_opponent_score_cell qx qy (owner p) rows cols score_cols
                      \<and> \<not> is_opponent_score_cell qx qy pushed_player rows cols score_cols
                   then (move_targets,
                         push_targets @ [(\<lparr>px = tx, py = ty\<rparr>, \<lparr>px = qx, py = qy\<rparr>)])
                   else acc
              else
                let pushed_player = owner target;
                    flow = get_river_flow_destinations b tx ty x y pushed_player rows cols
                             score_cols True
                in (move_targets,
                    push_targets @
                      map (\<lambda>d. (\<lparr>px = tx, py = ty\<rparr>, d))
                        (filter (\<lambda>d. \<not> is_opponent_score_cell (px d) (py d) current_player
                                        rows cols score_cols) flow)))"

definition piece_moves ::
  "board \<Rightarrow> int \<Rightarrow> int \<Rightarrow> string \<Rightarrow> int \<Rightarrow> int \<Rightarrow> int list \<Rightarrow> move list" where
  "piece_moves b x y current_player rows cols score_cols =
     (let targets = fold (target_step b x y current_player rows cols score_cols) dirs4 ([], [])
      in map (mk_move x y) (fst targets) @ map (mk_push x y) (snd targets) @
         (if side (cell_at b x y) = ''stone''
          then [mk_flip_to x y ''horizontal'', mk_flip_to x y ''vertical'']
          else [mk_flip x y, mk_rotate x y]))"

definition generate_all_valid_moves ::
  "board \<Rightarrow> string \<Rightarrow> int \<Rightarrow> int \<Rightarrow> int list \<Rightarrow> move list" where
  "generate_all_valid_moves b current_player rows cols score_cols =
     concat (map (\<lambda>y. concat (map (\<lambda>x.
         if \<not> isEmpty (cell_at b x y) \<and> owner (cell_at b x y) = current_player
         then piece_moves b x y current_player rows cols score_cols else [])
       [0..cols - 1])) [0..rows - 1])"

section \<open>Doubles\<close>

text \<open>
  Scores and distances are C++ \<^verbatim>\<open>double\<close>s. They are modelled as exact reals with the two
  infinities and NaN; the arithmetic follows IEEE 754 on these four kinds of value, and
  rounding is not modelled. Every finite number the agent forms is an integer far below
  \<open>2^53\<close> or a quotient \<open>2000 / k\<close> with \<open>k \<le> 4\<close>, so that sums of the first kind are exact
  in the source as well.
\<close>

datatype double = Finite real | PInf | MInf | NaN

fun d_neg :: "double \<Rightarrow> double" where
  "d_neg (Finite a) = Finite (- a)"
| "d_neg PInf = MInf"
| "d_neg MInf = PInf"
| "d_neg NaN = NaN"

fun d_add :: "double \<Rightarrow> double \<Rightarrow> double" where
  "d_add (Finite a) (Finite b) = Finite (a + b)"
| "d_add NaN _ = NaN"
| "d_add _ NaN = NaN"
| "d_add PInf MInf = NaN"
| "d_add MInf PInf = NaN"
| "d_add PInf _ = PInf"
| "d_add _ PInf = PInf"
| "d_add MInf _ = MInf"
| "d_add _ MInf = MInf"

definition d_sub :: "double \<Rightarrow> double \<Rightarrow> double" where
  "d_sub a b = d_add a (d_neg b)"

fun d_sign :: "double \<Rightarrow> real" where
  "d_sign (Finite a) = sgn a"
| "d_sign PInf = 1"
| "d_sign MInf = - 1"
| "d_sign NaN = 0"

fun d_mul :: "double \<Rightarrow> double \<Rightarrow> double" where
  "d_mul (Finite a) (Finite b) = Finite (a * b)"
| "d_mul NaN _ = NaN"
| "d_mul _ NaN = NaN"
| "d_mul a b =
     (if d_sign a * d_sign b = 0 then NaN else if d_sign a * d_sign b > 0 then PInf else MInf)"

fun d_lt :: "double \<Rightarrow> double \<Rightarrow> bool" where
  "d_lt (Finite a) (Finite b) = (a < b)"
| "d_lt NaN _ = False"
| "d_lt _ NaN = False"
| "d_lt MInf MInf = False"
| "d_lt MInf _ = True"
| "d_lt _ MInf = False"
| "d_lt PInf _ = False"
| "d_lt _ PInf = True"

fun d_eq :: "double \<Rightarrow> double \<Rightarrow> bool" where
  "d_eq NaN _ = False"
| "d_eq _ NaN = False"
| "d_eq a b = (a = b)"

definition d_le :: "double \<Rightarrow> double \<Rightarrow> bool" where
  "d_le a b = (d_lt a b \<or> d_eq a b)"

text \<open>\<^verbatim>\<open>std::min(a, b)\<close> is \<^verbatim>\<open>(b < a) ? b : a\<close> and \<^verbatim>\<open>std::max(a, b)\<close> is
  \<^verbatim>\<open>(a < b) ? b : a\<close>.\<close>

definition d_min :: "double \<Rightarrow> double \<Rightarrow> double" where
  "d_min a b = (if d_lt b a then b else a)"

definition d_max :: "double \<Rightarrow> double \<Rightarrow> double" where
  "d_max a b = (if d_lt a b then b else a)"

fun d_abs :: "double \<Rightarrow> double" where
  "d_abs (Finite a) = Finite \<bar>a\<bar>"
| "d_abs PInf = PInf"
| "d_abs MInf = PInf"
| "d_abs NaN = NaN"

text \<open>\<^verbatim>\<open>std::pow(x, n)\<close> for the exponents 2 and 3 of the source.\<close>

fun d_pow :: "double \<Rightarrow> nat \<Rightarrow> double" where
  "d_pow (Finite a) n = Finite (a ^ n)"
| "d_pow PInf n = PInf"
| "d_pow MInf n = (if even n then PInf else MInf)"
| "d_pow NaN n = NaN"

section \<open>Breadth-first distance to the goal cells\<close>

record PathResult =
  distance :: double
  path :: "Position list"

record QueueNode =
  node_pos :: Position
  node_dist :: int
  node_path :: "Position list"

type_synonym bfs_state = "Position set \<times> QueueNode list"

text \<open>
  The loops of \<open>bfs_distance_to_goals\<close> leave the function from their middle with a
  result. A pass over a loop body therefore gives \<open>Inl result\<close> for the
  \<^verbatim>\<open>return\<close>, or \<open>Inr (visited, queue)\<close> to go on.

  \<open>bfs_flow\<close> is the \<^verbatim>\<open>for (const auto& flow_pos : flow_dests)\<close>.
\<close>

fun bfs_flow ::
  "Position list \<Rightarrow> QueueNode \<Rightarrow> Position list \<Rightarrow> Position list \<Rightarrow> bfs_state
     \<Rightarrow> PathResult + bfs_state" where
  "bfs_flow goal_cells node new_path [] st = Inr st"
| "bfs_flow goal_cells node new_path (flow_pos # flow_dests) (visited, queue) =
     (if flow_pos \<notin> visited then
        if flow_pos \<in> set goal_cells then
          Inl \<lparr>distance = Finite (of_int (node_dist node + 1)), path = new_path @ [flow_pos]\<rparr>
        else
          bfs_flow goal_cells node new_path flow_dests
            (insert flow_pos visited,
             queue @ [\<lparr>node_pos = flow_pos, node_dist = node_dist node + 1,
                       node_path = new_path @ [flow_pos]\<rparr>])
      else bfs_flow goal_cells node new_path flow_dests (visited, queue))"

text \<open>One direction of the \<^verbatim>\<open>for (auto [dx, dy] : dirs)\<close> of a node.\<close>

definition bfs_dir ::
  "board \<Rightarrow> Position list \<Rightarrow> string \<Rightarrow> int \<Rightarrow> int \<Rightarrow> int list \<Rightarrow> bool \<Rightarrow> QueueNode
     \<Rightarrow> int \<times> int \<Rightarrow> bfs_state \<Rightarrow> PathResult + bfs_state" where
  "bfs_dir b goal_cells player rows cols score_cols use_rivers node d st =
     (let nx = px (node_pos node) + fst d; ny = py (node_pos node) + snd d;
          next_pos = \<lparr>px = nx, py = ny\<rparr>; visited = fst st; queue = snd st
      in if \<not> in_bounds nx ny rows cols then Inr st
         else if next_pos \<in> visited then Inr st
         else if is_opponent_score_cell nx ny player rows cols score_cols then Inr st
         else
           let cell = cell_at b nx ny; new_path = node_path node @ [next_pos]
           in if isEmpty cell then
                if next_pos \<in> set goal_cells then
                  Inl \<lparr>distance = Finite (of_int (node_dist node + 1)), path = new_path\<rparr>
                else
                  Inr (insert next_pos visited,
                       queue @ [\<lparr>node_pos = next_pos, node_dist = node_dist node + 1,
                                 node_path = new_path\<rparr>])
              else if use_rivers \<and> side cell = ''river'' then
                bfs_flow goal_cells node new_path
                  (get_river_flow_destinations b nx ny (px (node_pos node)) (py (node_pos node))
                     player rows cols score_cols False)
                  st
              else Inr st)"

fun bfs_dirs ::
  "board \<Rightarrow> Position list \<Rightarrow> string \<Rightarrow> int \<Rightarrow> int \<Rightarrow> int list \<Rightarrow> bool \<Rightarrow> QueueNode
     \<Rightarrow> (int \<times> int) list \<Rightarrow> bfs_state \<Rightarrow> PathResult + bfs_state" where
  "bfs_dirs b goal_cells player rows cols score_cols use_rivers node [] st = Inr st"
| "bfs_dirs b goal_cells player rows cols score_cols use_rivers node (d # ds) st =
     (case bfs_dir b goal_cells player rows cols score_cols use_rivers node d st of
        Inl r \<Rightarrow> Inl r
      | Inr st' \<Rightarrow> bfs_dirs b goal_cells player rows cols score_cols use_rivers node ds st')"

text \<open>
  What one pass may do to the search state: it only adds cells of the board to
  \<open>visited\<close>, and it leaves the queue alone unless it adds one. This is what makes the
  search loop terminate.
\<close>

definition bfs_grows :: "int \<Rightarrow> int \<Rightarrow> bfs_state \<Rightarrow> bfs_state \<Rightarrow> bool" where
  "bfs_grows rows cols st st' =
     (fst st \<subseteq> fst st' \<and> fst st' - fst st \<subseteq> cells_in_bounds rows cols
      \<and> (fst st' = fst st \<longrightarrow> snd st' = snd st))"

lemma bfs_grows_refl: "bfs_grows rows cols st st"
  by (simp add: bfs_grows_def)

lemma bfs_grows_trans:
  "bfs_grows rows cols st st' \<Longrightarrow> bfs_grows rows cols st' st'' \<Longrightarrow> bfs_grows rows cols st st''"
  by (auto simp: bfs_grows_def)

lemma bfs_grows_insert:
  "p \<notin> visited \<Longrightarrow> in_bounds (px p) (py p) rows cols \<Longrightarrow>
   bfs_grows rows cols (visited, queue) (insert p visited, queue')"
  by (auto simp: bfs_grows_def cells_in_bounds_def)

lemma bfs_flow_grows:
  "list_all (\<lambda>p. in_bounds (px p) (py p) rows cols) flow_dests \<Longrightarrow>
   bfs_flow goal_cells node new_path flow_dests st = Inr st' \<Longrightarrow> bfs_grows rows cols st st'"
proof (induction goal_cells node new_path flow_dests st rule: bfs_flow.induct)
  case (1 goal_cells node new_path st)
  then show ?case by (simp add: bfs_grows_refl)
next
  case (2 goal_cells node new_path flow_pos flow_dests visited queue)
  show ?case
  proof (cases "flow_pos \<in> visited")
    case True
    then show ?thesis using 2 by simp
  next
    case False
    let ?st1 = "(insert flow_pos visited,
             queue @ [\<lparr>node_pos = flow_pos, node_dist = node_dist node + 1,
                       node_path = new_path @ [flow_pos]\<rparr>])"
    from False 2 have ng: "flow_pos \<notin> set goal_cells"
      by (auto split: if_splits)
    have "bfs_grows rows cols (visited, queue) ?st1"
      using False "2.prems"(1) by (intro bfs_grows_insert) simp_all
    moreover have "bfs_grows rows cols ?st1 st'"
      using 2 False ng by simp
    ultimately show ?thesis
      by (rule bfs_grows_trans)
  qed
qed

lemma bfs_dir_grows:
  assumes "bfs_dir b goal_cells player rows cols score_cols use_rivers node d st = Inr st'"
  shows "bfs_grows rows cols st st'"
proof -
  let ?nx = "px (node_pos node) + fst d" and ?ny = "py (node_pos node) + snd d"
  have flow: "list_all (\<lambda>p. in_bounds (px p) (py p) rows cols)
          (get_river_flow_destinations b ?nx ?ny (px (node_pos node)) (py (node_pos node))
             player rows cols score_cols False)"
    using get_river_flow_destinations_landing
      [of False b "px (node_pos node)" "py (node_pos node)" player rows cols score_cols ?nx ?ny]
    by (auto simp: list_all_iff landing_ok_def)
  obtain visited queue where st: "st = (visited, queue)"
    by (cases st)
  show ?thesis
    using assms bfs_flow_grows [OF flow] bfs_grows_insert [of "\<lparr>px = ?nx, py = ?ny\<rparr>" visited rows cols queue]
    by (auto simp: bfs_dir_def Let_def st bfs_grows_refl split: if_splits)
qed

lemma bfs_dirs_grows:
  "bfs_dirs b goal_cells player rows cols score_cols use_rivers node ds st = Inr st' \<Longrightarrow>
   bfs_grows rows cols st st'"
proof (induction ds arbitrary: st)
  case Nil
  then show ?case by (simp add: bfs_grows_refl)
next
  case (Cons d ds)
  then show ?case
    by (auto split: sum.splits dest: bfs_dir_grows intro: bfs_grows_trans)
qed

lemma bfs_grows_measure:
  assumes "bfs_grows rows cols (visited, rest) (visited', queue')"
  shows "((card (cells_in_bounds rows cols - visited'), length queue'),
          (card (cells_in_bounds rows cols - visited), Suc (length rest)))
         \<in> less_than <*lex*> less_than"
proof (cases "visited' = visited")
  case True
  then show ?thesis using assms by (simp add: bfs_grows_def)
next
  case False
  then obtain p where p: "p \<in> visited'" "p \<notin> visited" "p \<in> cells_in_bounds rows cols"
    using assms by (auto simp: bfs_grows_def)
  have "cells_in_bounds rows cols - visited' \<subset> cells_in_bounds rows cols - visited"
    using assms p by (auto simp: bfs_grows_def)
  then have "card (cells_in_bounds rows cols - visited') < card (cells_in_bounds rows cols - visited)"
    by (intro psubset_card_mono) (simp_all add: finite_cells_in_bounds)
  then show ?thesis by simp
qed

text \<open>The \<^verbatim>\<open>while (!queue.empty())\<close> of the search.\<close>

function bfs_loop ::
  "board \<Rightarrow> Position list \<Rightarrow> string \<Rightarrow> int \<Rightarrow> int \<Rightarrow> int list \<Rightarrow> bool
     \<Rightarrow> Position set \<Rightarrow> QueueNode list \<Rightarrow> PathResult" where
  "bfs_loop b goal_cells player rows cols score_cols use_rivers visited queue =
     (case queue of
        [] \<Rightarrow> \<lparr>distance = PInf, path = []\<rparr>
      | node # rest \<Rightarrow>
          (case bfs_dirs b goal_cells player rows cols score_cols use_rivers node dirs4
                  (visited, rest) of
             Inl r \<Rightarrow> r
           | Inr st' \<Rightarrow>
               bfs_loop b goal_cells player rows cols score_cols use_rivers (fst st') (snd st')))"
  by pat_completeness auto
termination
proof (relation "inv_image (less_than <*lex*> less_than)
         (\<lambda>(b, goal_cells, player, rows, cols, score_cols, use_rivers, visited, queue).
            (card (cells_in_bounds rows cols - visited), length queue))", goal_cases)
  case 1
  show ?case by (intro wf_inv_image wf_lex_prod wf_less_than)
next
  case (2 b goal_cells player rows cols score_cols use_rivers visited queue node rest st')
  have "bfs_grows rows cols (visited, rest) (fst st', snd st')"
    using bfs_dirs_grows [OF 2(2)] by simp
  from bfs_grows_measure [OF this] show ?case
    using 2(1) by (simp add: case_prod_beta)
qed

declare bfs_loop.simps [simp del]

definition bfs_distance_to_goals ::
  "board \<Rightarrow> int \<Rightarrow> int \<Rightarrow> Position list \<Rightarrow> string \<Rightarrow> int \<Rightarrow> int \<Rightarrow> int list \<Rightarrow> bool
     \<Rightarrow> PathResult" where
  "bfs_distance_to_goals b start_x start_y goal_cells player rows cols score_cols use_rivers =
     (let start = \<lparr>px = start_x, py = start_y\<rparr>
      in if start \<in> set goal_cells then \<lparr>distance = Finite 0, path = [start]\<rparr>
         else bfs_loop b goal_cells player rows cols score_cols use_rivers {start}
                [\<lparr>node_pos = start, node_dist = 0, node_path = [start]\<rparr>])"

section \<open>The pathfinding cache\<close>

text \<open>
  \<open>GLOBAL_BFS_CACHE\<close> is a process-wide map from a key string to a result. Every
  function that reads or writes it takes the cache and returns the new one. The map is
  the list of its entries in the order they were added, read with \<open>map_of\<close>; an entry
  is only added under a key that is not there (\<^verbatim>\<open>emplace\<close> after a failed \<^verbatim>\<open>find\<close>), and
  \<^verbatim>\<open>clear()\<close> is the empty list.
\<close>

type_synonym cache = "(string \<times> PathResult) list"

definition make_bfs_key :: "int \<Rightarrow> int \<Rightarrow> Position list \<Rightarrow> bool \<Rightarrow> string \<Rightarrow> string" where
  "make_bfs_key sx sy goals use_rivers player =
     to_string sx @ '','' @ to_string sy @ '':'' @ (if use_rivers then ''R1'' else ''R0'')
       @ '':'' @ player @ '':''
       @ concat (map (\<lambda>g. to_string (px g) @ '','' @ to_string (py g) @ '';'') goals)"

definition bfs_distance_to_goals_cached ::
  "cache \<Rightarrow> board \<Rightarrow> int \<Rightarrow> int \<Rightarrow> Position list \<Rightarrow> string \<Rightarrow> int \<Rightarrow> int \<Rightarrow> int list \<Rightarrow> bool
     \<Rightarrow> PathResult \<times> cache" where
  "bfs_distance_to_goals_cached c b start_x start_y goal_cells player rows cols score_cols
     use_rivers =
     (let key = make_bfs_key start_x start_y goal_cells use_rivers player
      in case map_of c key of
           Some r \<Rightarrow> (r, c)
         | None \<Rightarrow>
             let res = bfs_distance_to_goals b start_x start_y goal_cells player rows cols
                         score_cols use_rivers
             in (res, c @ [(key, res)]))"

section \<open>Applying a move\<close>

text \<open>
  \<^verbatim>\<open>new_board[y][x] = c\<close>. The source writes without a range check; the moves it applies
  come from the generator or the opening book and name cells of the board.
\<close>

definition set_cell :: "board \<Rightarrow> int \<Rightarrow> int \<Rightarrow> Cell \<Rightarrow> board" where
  "set_cell b x y c = b[nat y := (b ! nat y)[nat x := c]]"

text \<open>
  \<open>apply_move\<close> copies the board, changes the copy and returns it; the board it was given
  is a \<^verbatim>\<open>const\<close> reference, here the argument \<open>b\<close>. The second component of the result is
  the cache after the call. A missing key (\<^verbatim>\<open>move.at\<close>) or a value that is no number
  (\<^verbatim>\<open>std::stoi\<close>) throws: the result is \<open>None\<close>.
\<close>

definition apply_move ::
  "cache \<Rightarrow> board \<Rightarrow> move \<Rightarrow> string \<Rightarrow> int \<Rightarrow> int \<Rightarrow> int list \<Rightarrow> (board \<times> cache) option" where
  "apply_move c b m current_player rows cols score_cols =
     do {
       action \<leftarrow> map_of m ''action'';
       from_x \<leftarrow> move_int m ''from_x'';
       from_y \<leftarrow> move_int m ''from_y'';
       if action = ''move'' then do {
         to_x \<leftarrow> move_int m ''to_x'';
         to_y \<leftarrow> move_int m ''to_y'';
         let b1 = set_cell b to_x to_y (cell_at b from_x from_y);
         let b2 = set_cell b1 from_x from_y Cell_empty;
         Some (b2, c)
       } else if action = ''push'' then do {
         to_x \<leftarrow> move_int m ''to_x'';
         to_y \<leftarrow> move_int m ''to_y'';
         pushed_x \<leftarrow> move_int m ''pushed_x'';
         pushed_y \<leftarrow> move_int m ''pushed_y'';
         let b1 = set_cell b pushed_x pushed_y (cell_at b to_x to_y);
         let b2 = set_cell b1 to_x to_y (cell_at b1 from_x from_y);
         let b3 = set_cell b2 from_x from_y Cell_empty;
         if side (cell_at b3 to_x to_y) = ''river''
         then Some (set_cell b3 to_x to_y
                      ((cell_at b3 to_x to_y)\<lparr>side := ''stone'', orientation := ''''\<rparr>),
                    [])
         else Some (b3, c)
       } else if action = ''flip'' then
         if side (cell_at b from_x from_y) = ''stone'' then do {
           orient \<leftarrow> map_of m ''orientation'';
           Some (set_cell b from_x from_y
                   ((cell_at b from_x from_y)\<lparr>side := ''river'', orientation := orient\<rparr>),
                 [])
         } else
           Some (set_cell b from_x from_y
                   ((cell_at b from_x from_y)\<lparr>side := ''stone'', orientation := ''''\<rparr>),
                 [])
       else if action = ''rotate'' then
         Some (set_cell b from_x from_y
                 ((cell_at b from_x from_y)
                    \<lparr>orientation := (if orientation (cell_at b from_x from_y) = ''horizontal''
                                      then ''vertical'' else ''horizontal'')\<rparr>),
               [])
       else Some (b, c)
     }"

section \<open>The evaluator\<close>

text \<open>
  The agent is created for one side; \<open>player\<close> is that side and \<open>get_opponent player\<close>
  the other. The goal cells of a side are the cells of its score row in the score columns.
\<close>

definition get_my_goal_cells :: "string \<Rightarrow> int \<Rightarrow> int \<Rightarrow> int list \<Rightarrow> Position list" where
  "get_my_goal_cells player rows cols score_cols =
     (let goal_row = (if player = ''circle'' then top_score_row else bottom_score_row rows)
      in map (\<lambda>x. \<lparr>px = x, py = goal_row\<rparr>) score_cols)"

definition get_opponent_goal_cells :: "string \<Rightarrow> int \<Rightarrow> int \<Rightarrow> int list \<Rightarrow> Position list" where
  "get_opponent_goal_cells player rows cols score_cols =
     (let goal_row = (if player = ''circle'' then bottom_score_row rows else top_score_row)
      in map (\<lambda>x. \<lparr>px = x, py = goal_row\<rparr>) score_cols)"

record StoneInfo =
  stone_x :: int
  stone_y :: int
  stone_dist :: double
  stone_path :: "Position list"

record scan_state =
  score :: double
  my_stone_distances :: "StoneInfo list"
  opp_stone_distances :: "StoneInfo list"
  bfs_cache :: cache

text \<open>\<^verbatim>\<open>static_cast<size_t>(d)\<close> of a finite non-negative double; the source only converts
  such values.\<close>

definition size_t_of :: "double \<Rightarrow> nat" where
  "size_t_of d = (case d of Finite r \<Rightarrow> nat \<lfloor>r\<rfloor> | _ \<Rightarrow> 0)"

definition is_stone_of :: "string \<Rightarrow> Cell \<Rightarrow> bool" where
  "is_stone_of p c = (\<not> isEmpty c \<and> owner c = p \<and> side c = ''stone'')"

text \<open>The number of own stones of \<open>p\<close> resting in the score columns of row \<open>row\<close>: the
  counting loop at the head of \<open>evaluate_board\<close>.\<close>

definition scoring_stones :: "board \<Rightarrow> string \<Rightarrow> int \<Rightarrow> int list \<Rightarrow> nat" where
  "scoring_stones b p row score_cols =
     length (filter (\<lambda>x. is_stone_of p (cell_at b x row)) score_cols)"

definition near :: "int \<Rightarrow> int \<Rightarrow> StoneInfo \<Rightarrow> bool" where
  "near x y stone = (\<bar>x - stone_x stone\<bar> \<le> 2 \<and> \<bar>y - stone_y stone\<bar> \<le> 2)"

text \<open>The body of the board scan of \<open>evaluate_board\<close> for the cell \<open>(x, y)\<close>.\<close>

definition eval_cell ::
  "string \<Rightarrow> board \<Rightarrow> int \<Rightarrow> int \<Rightarrow> int list \<Rightarrow> nat \<Rightarrow> int \<times> int \<Rightarrow> scan_state \<Rightarrow> scan_state" where
  "eval_cell player b rows cols score_cols my_scoring_stones xy st =
     (let x = fst xy; y = snd xy; cell = cell_at b x y; opponent = get_opponent player;
          my_goals = get_my_goal_cells player rows cols score_cols;
          opp_goals = get_opponent_goal_cells player rows cols score_cols;
          my_score_row = py (my_goals ! 0)
      in if isEmpty cell then st
         else if side cell = ''stone'' \<and> owner cell = player then
           let rc = bfs_distance_to_goals_cached (bfs_cache st) b x y my_goals player rows cols
                      score_cols True;
               result = fst rc; st1 = st\<lparr>bfs_cache := snd rc\<rparr>
           in if d_lt (distance result) PInf then
                let proximity_score =
                      d_mul (d_pow (d_sub (Finite 20) (d_min (distance result) (Finite 20))) 3)
                        (Finite 1000);
                    s1 = d_add (score st1) proximity_score;
                    s2 = (if d_le (distance result) (Finite 2)
                          then d_add s1 (Finite (2000000 + real my_scoring_stones * 500000))
                          else if d_le (distance result) (Finite 4)
                          then d_add s1 (Finite (100000 + real my_scoring_stones * 50000))
                          else s1);
                    s3 = (if length (path result) > size_t_of (d_add (distance result) (Finite 1))
                          then d_add s2 (Finite 200000) else s2)
                in st1\<lparr>score := s3,
                       my_stone_distances := my_stone_distances st1 @
                         [\<lparr>stone_x = x, stone_y = y, stone_dist = distance result,
                           stone_path = path result\<rparr>]\<rparr>
              else st1
         else if side cell = ''stone'' \<and> owner cell = opponent then
           let rc = bfs_distance_to_goals_cached (bfs_cache st) b x y opp_goals opponent rows cols
                      score_cols True;
               result = fst rc; st1 = st\<lparr>bfs_cache := snd rc\<rparr>
           in if d_lt (distance result) PInf then
                let threat_penalty =
                      d_mul (d_sub (Finite 20) (d_min (distance result) (Finite 20))) (Finite 500);
                    s1 = d_sub (score st1) threat_penalty;
                    s2 = (if d_le (distance result) (Finite 2) then d_sub s1 (Finite 80000)
                          else if d_le (distance result) (Finite 4) then d_sub s1 (Finite 30000)
                          else s1)
                in st1\<lparr>score := s2,
                       opp_stone_distances := opp_stone_distances st1 @
                         [\<lparr>stone_x = x, stone_y = y, stone_dist = distance result,
                           stone_path = path result\<rparr>]\<rparr>
              else st1
         else if side cell = ''river'' \<and> owner cell = player then
           let v1 = 3000 * real (length (filter (near x y) (my_stone_distances st)));
               v2 = 5000 * real (length (filter (\<lambda>opp_stone.
                                     \<lparr>px = x, py = y\<rparr> \<in> set (stone_path opp_stone))
                                   (opp_stone_distances st)));
               v3 = (if \<bar>y - my_score_row\<bar> \<le> 3
                     then 2000 / (1 + real_of_int \<bar>y - my_score_row\<bar>) else 0);
               river_value = v1 + v2 + v3
           in st\<lparr>score := d_add (score st) (Finite river_value)\<rparr>
         else if side cell = ''river'' \<and> owner cell = opponent then
           st\<lparr>score := fold (\<lambda>stone s. if near x y stone then d_add s (Finite 1000) else s)
                           (my_stone_distances st) (score st)\<rparr>
         else st)"

definition board_cells :: "int \<Rightarrow> int \<Rightarrow> (int \<times> int) list" where
  "board_cells rows cols = concat (map (\<lambda>y. map (\<lambda>x. (x, y)) [0..cols - 1]) [0..rows - 1])"

definition goal_perimeter :: "Position list \<Rightarrow> int \<Rightarrow> int \<Rightarrow> Position list" where
  "goal_perimeter my_goals rows cols =
     concat (map (\<lambda>goal.
       map (\<lambda>d. \<lparr>px = px goal + fst d, py = py goal + snd d\<rparr>)
         (filter (\<lambda>d. in_bounds (px goal + fst d) (py goal + snd d) rows cols)
            [(0, 1), (0, -1), (1, 0), (-1, 0), (1, 1), (1, -1), (-1, 1), (-1, -1)]))
       my_goals)"

text \<open>
  Everything of \<open>evaluate_board\<close> after the two terminal checks: the weighted scoring
  stones, the board scan, the multi-stone pressure and the control of the goal perimeter.
\<close>

definition evaluate_features ::
  "string \<Rightarrow> cache \<Rightarrow> board \<Rightarrow> int \<Rightarrow> int \<Rightarrow> int list \<Rightarrow> nat \<Rightarrow> nat \<Rightarrow> double \<times> cache" where
  "evaluate_features player c b rows cols score_cols my_scoring_stones opp_scoring_stones =
     (let opponent = get_opponent player;
          my_goals = get_my_goal_cells player rows cols score_cols;
          s0 = d_sub (d_add (Finite 0) (Finite (real my_scoring_stones * 100000000)))
                 (Finite (real opp_scoring_stones * 3000000));
          st = fold (eval_cell player b rows cols score_cols my_scoring_stones)
                 (board_cells rows cols)
                 \<lparr>score = s0, my_stone_distances = [], opp_stone_distances = [], bfs_cache = c\<rparr>;
          stones_within_5 = length (filter (\<lambda>stone. d_le (stone_dist stone) (Finite 5))
                                      (my_stone_distances st));
          s1 = (if stones_within_5 \<ge> 4
                then d_add (score st) (Finite (15000 * real stones_within_5)) else score st);
          opp_threats = length (filter (\<lambda>stone. d_le (stone_dist stone) (Finite 5))
                                  (opp_stone_distances st));
          s2 = (if opp_threats \<ge> 4
                then d_sub s1 (Finite (12000 * real opp_threats)) else s1);
          perimeter = goal_perimeter my_goals rows cols;
          our_control = length (filter (\<lambda>p. \<not> isEmpty (cell_at b (px p) (py p))
                                   \<and> owner (cell_at b (px p) (py p)) = player) perimeter);
          opp_control = length (filter (\<lambda>p. \<not> isEmpty (cell_at b (px p) (py p))
                                   \<and> owner (cell_at b (px p) (py p)) \<noteq> player
                                   \<and> owner (cell_at b (px p) (py p)) = opponent) perimeter);
          s3 = d_add s2 (Finite (real our_control * 2000));
          s4 = d_sub s3 (Finite (real opp_control * 2500))
      in (s4, bfs_cache st))"

definition WIN_SCORE :: double where
  "WIN_SCORE = Finite 1000000000"

definition LOSE_SCORE :: double where
  "LOSE_SCORE = Finite (- 1000000000)"

definition evaluate_board ::
  "string \<Rightarrow> cache \<Rightarrow> board \<Rightarrow> int \<Rightarrow> int \<Rightarrow> int list \<Rightarrow> double \<times> cache" where
  "evaluate_board player c b rows cols score_cols =
     (let opponent = get_opponent player;
          my_goals = get_my_goal_cells player rows cols score_cols;
          opp_goals = get_opponent_goal_cells player rows cols score_cols;
          my_score_row = py (my_goals ! 0);
          opp_score_row = py (opp_goals ! 0);
          my_scoring_stones = scoring_stones b player my_score_row score_cols;
          opp_scoring_stones = scoring_stones b opponent opp_score_row score_cols
      in if my_scoring_stones \<ge> 4 then (WIN_SCORE, c)
         else if opp_scoring_stones \<ge> 4 then (LOSE_SCORE, c)
         else evaluate_features player c b rows cols score_cols
                my_scoring_stones opp_scoring_stones)"

section \<open>The search\<close>

text \<open>
  \<open>minimax\<close> with its two loops over the moves; \<open>minimax_max\<close> and \<open>minimax_min\<close> are the
  \<^verbatim>\<open>for (const auto& move : moves)\<close> of the maximising and of the minimising side, with
  \<open>max_eval\<close>, \<open>alpha\<close> and \<open>beta\<close> as they stand when the loop reaches the remaining moves.
  The depth is a natural number: the agent searches to depth \<open>MAX_DEPTH - 1 = 1\<close>. The
  result is \<open>None\<close> when applying a move throws.
\<close>

function minimax ::
    "string \<Rightarrow> int \<Rightarrow> int \<Rightarrow> int list \<Rightarrow> nat \<Rightarrow> cache \<Rightarrow> board \<Rightarrow> double \<Rightarrow> double \<Rightarrow> bool
       \<Rightarrow> (double \<times> cache) option"
  and minimax_max ::
    "string \<Rightarrow> int \<Rightarrow> int \<Rightarrow> int list \<Rightarrow> nat \<Rightarrow> board \<Rightarrow> move list \<Rightarrow> cache \<Rightarrow> double \<Rightarrow> double
       \<Rightarrow> double \<Rightarrow> (double \<times> cache) option"
  and minimax_min ::
    "string \<Rightarrow> int \<Rightarrow> int \<Rightarrow> int list \<Rightarrow> nat \<Rightarrow> board \<Rightarrow> move list \<Rightarrow> cache \<Rightarrow> double \<Rightarrow> double
       \<Rightarrow> double \<Rightarrow> (double \<times> cache) option"
  where
  "minimax player rows cols score_cols 0 c b alpha beta is_maximizing =
     Some (evaluate_board player c b rows cols score_cols)"
| "minimax player rows cols score_cols (Suc depth) c b alpha beta is_maximizing =
     (if check_win b rows cols score_cols \<noteq> '''' then
        Some (evaluate_board player c b rows cols score_cols)
      else
        let current_player = (if is_maximizing then player else get_opponent player);
            moves = generate_all_valid_moves b current_player rows cols score_cols
        in if moves = [] then Some (evaluate_board player c b rows cols score_cols)
           else if is_maximizing then
             minimax_max player rows cols score_cols depth b moves c MInf alpha beta
           else
             minimax_min player rows cols score_cols depth b moves c PInf alpha beta)"
| "minimax_max player rows cols score_cols depth b [] c max_eval alpha beta = Some (max_eval, c)"
| "minimax_max player rows cols score_cols depth b (m # ms) c max_eval alpha beta =
     (case apply_move c b m player rows cols score_cols of
        None \<Rightarrow> None
      | Some (new_board, c1) \<Rightarrow>
          (case minimax player rows cols score_cols depth c1 new_board alpha beta False of
             None \<Rightarrow> None
           | Some (eval_score, c2) \<Rightarrow>
               let max_eval' = d_max max_eval eval_score; alpha' = d_max alpha eval_score
               in if d_le beta alpha' then Some (max_eval', c2)
                  else minimax_max player rows cols score_cols depth b ms c2 max_eval' alpha' beta))"
| "minimax_min player rows cols score_cols depth b [] c min_eval alpha beta = Some (min_eval, c)"
| "minimax_min player rows cols score_cols depth b (m # ms) c min_eval alpha beta =
     (case apply_move c b m (get_opponent player) rows cols score_cols of
        None \<Rightarrow> None
      | Some (new_board, c1) \<Rightarrow>
          (case minimax player rows cols score_cols depth c1 new_board alpha beta True of
             None \<Rightarrow> None
           | Some (eval_score, c2) \<Rightarrow>
               let min_eval' = d_min min_eval eval_score; beta' = d_min beta eval_score
               in if d_le beta' alpha then Some (min_eval', c2)
                  else minimax_min player rows cols score_cols depth b ms c2 min_eval' alpha beta'))"
  by pat_completeness auto
termination
  by (relation "inv_image (less_than <*lex*> less_than <*lex*> less_than)
        (\<lambda>x. case x of
           Inl (player, rows, cols, score_cols, depth, c, b, alpha, beta, is_maximizing) \<Rightarrow>
             (depth, 0 :: nat, 0 :: nat)
         | Inr (Inl (player, rows, cols, score_cols, depth, b, moves, c, max_eval, alpha, beta)) \<Rightarrow>
             (depth, 1, length moves)
         | Inr (Inr (player, rows, cols, score_cols, depth, b, moves, c, min_eval, alpha, beta)) \<Rightarrow>
             (depth, 1, length moves))")
     auto

declare minimax.simps [simp del] minimax_max.simps [simp del] minimax_min.simps [simp del]

text \<open>
  The search as the specification words it: fixed-depth minimax over the same move
  generator and evaluator with no pruning, every position scored for itself (the
  evaluator starts from an empty cache).
\<close>

fun plain_minimax ::
  "string \<Rightarrow> int \<Rightarrow> int \<Rightarrow> int list \<Rightarrow> nat \<Rightarrow> board \<Rightarrow> bool \<Rightarrow> double option" where
  "plain_minimax player rows cols score_cols 0 b is_maximizing =
     Some (fst (evaluate_board player [] b rows cols score_cols))"
| "plain_minimax player rows cols score_cols (Suc depth) b is_maximizing =
     (let current_player = (if is_maximizing then player else get_opponent player);
          moves = generate_all_valid_moves b current_player rows cols score_cols
      in if check_win b rows cols score_cols \<noteq> [] \<or> moves = [] then
           Some (fst (evaluate_board player [] b rows cols score_cols))
         else
           fold (\<lambda>m acc.
                   case acc of
                     None \<Rightarrow> None
                   | Some best \<Rightarrow>
                       (case apply_move [] b m current_player rows cols score_cols of
                          None \<Rightarrow> None
                        | Some r \<Rightarrow>
                            (case plain_minimax player rows cols score_cols depth (fst r)
                                    (\<not> is_maximizing) of
                               None \<Rightarrow> None
                             | Some v \<Rightarrow>
                                 Some (if is_maximizing then d_max best v else d_min best v))))
             moves (Some (if is_maximizing then MInf else PInf)))"

section \<open>The strategy controller\<close>

text \<open>
  \<open>bfs_distance_with_flip\<close>: the distance of a piece, and for a stone the better of the
  distances it would have as a horizontal and as a vertical river. All three queries go
  through the cache under the same key.
\<close>

definition bfs_distance_with_flip ::
  "cache \<Rightarrow> board \<Rightarrow> int \<Rightarrow> int \<Rightarrow> Position list \<Rightarrow> string \<Rightarrow> int \<Rightarrow> int \<Rightarrow> int list
     \<Rightarrow> (double \<times> string) \<times> cache" where
  "bfs_distance_with_flip c b start_x start_y goal_cells player rows cols score_cols =
     (let piece = cell_at b start_x start_y
      in if isEmpty piece \<or> owner piece \<noteq> player then ((PInf, ''none''), c)
         else
           let rc = bfs_distance_to_goals_cached c b start_x start_y goal_cells player rows cols
                      score_cols True;
               current_dist = distance (fst rc)
           in if side piece = ''stone'' then
                let copy_h = set_cell b start_x start_y
                               (piece\<lparr>side := ''river'', orientation := ''horizontal''\<rparr>);
                    rh = bfs_distance_to_goals_cached (snd rc) copy_h start_x start_y goal_cells
                           player rows cols score_cols True;
                    best1 = (if d_lt (distance (fst rh)) current_dist
                             then (distance (fst rh), ''horizontal'') else (current_dist, ''none''));
                    copy_v = set_cell copy_h start_x start_y
                               ((cell_at copy_h start_x start_y)\<lparr>orientation := ''vertical''\<rparr>);
                    rv = bfs_distance_to_goals_cached (snd rh) copy_v start_x start_y goal_cells
                           player rows cols score_cols True;
                    best2 = (if d_lt (distance (fst rv)) (fst best1)
                             then (distance (fst rv), ''vertical'') else best1)
                in (best2, snd rv)
              else ((current_dist, ''none''), snd rc))"

record RiverOpportunity =
  ro_action :: string
  ro_from_x :: int
  ro_from_y :: int
  ro_orientation :: string
  ro_value :: double
  ro_defensive :: bool

text \<open>
  \<^verbatim>\<open>std::sort\<close> with the comparator \<open>a.value > b.value\<close>. The standard leaves the order of
  entries of equal value open; the model keeps them in their order of insertion (what the
  insertion sort of the library does on these short vectors).
\<close>

fun insert_by_value :: "RiverOpportunity \<Rightarrow> RiverOpportunity list \<Rightarrow> RiverOpportunity list" where
  "insert_by_value a [] = [a]"
| "insert_by_value a (b # bs) =
     (if d_lt (ro_value b) (ro_value a) then a # b # bs else b # insert_by_value a bs)"

definition sort_by_value :: "RiverOpportunity list \<Rightarrow> RiverOpportunity list" where
  "sort_by_value xs = foldl (\<lambda>acc a. insert_by_value a acc) [] xs"

definition river_creation_cell ::
  "string \<Rightarrow> board \<Rightarrow> int \<Rightarrow> int \<Rightarrow> int list \<Rightarrow> int \<times> int
     \<Rightarrow> RiverOpportunity list \<times> cache \<Rightarrow> RiverOpportunity list \<times> cache" where
  "river_creation_cell player b rows cols score_cols xy acc =
     (let x = fst xy; y = snd xy; cell = cell_at b x y;
          my_goals = get_my_goal_cells player rows cols score_cols
      in if is_stone_of player cell then
           let fl = bfs_distance_with_flip (snd acc) b x y my_goals player rows cols score_cols;
               dist_with_flip = fst (fst fl); best_orient = snd (fst fl);
               rc = bfs_distance_to_goals_cached (snd fl) b x y my_goals player rows cols
                      score_cols True;
               current_dist = distance (fst rc)
           in if best_orient \<noteq> ''none'' \<and> d_lt dist_with_flip (d_sub current_dist (Finite 1))
              then (fst acc @ [\<lparr>ro_action = ''flip'', ro_from_x = x, ro_from_y = y,
                                 ro_orientation = best_orient,
                                 ro_value = d_mul (d_sub current_dist dist_with_flip) (Finite 1000),
                                 ro_defensive = False\<rparr>], snd rc)
              else (fst acc, snd rc)
         else acc)"

definition find_river_creation_opportunities ::
  "string \<Rightarrow> cache \<Rightarrow> board \<Rightarrow> int \<Rightarrow> int \<Rightarrow> int list \<Rightarrow> RiverOpportunity list \<times> cache" where
  "find_river_creation_opportunities player c b rows cols score_cols =
     (let r = fold (river_creation_cell player b rows cols score_cols) (board_cells rows cols)
                ([], c)
      in (sort_by_value (fst r), snd r))"

record Threat =
  threat_x :: int
  threat_y :: int
  threat_dist :: double
  threat_path :: "Position list"

definition threat_cell ::
  "string \<Rightarrow> board \<Rightarrow> int \<Rightarrow> int \<Rightarrow> int list \<Rightarrow> int \<times> int \<Rightarrow> Threat list \<times> cache
     \<Rightarrow> Threat list \<times> cache" where
  "threat_cell player b rows cols score_cols xy acc =
     (let x = fst xy; y = snd xy; cell = cell_at b x y; opponent = get_opponent player;
          opp_goals = get_opponent_goal_cells player rows cols score_cols
      in if is_stone_of opponent cell then
           let rc = bfs_distance_to_goals_cached (snd acc) b x y opp_goals opponent rows cols
                      score_cols True
           in if d_lt (distance (fst rc)) (Finite 6)
              then (fst acc @ [\<lparr>threat_x = x, threat_y = y, threat_dist = distance (fst rc),
                                 threat_path = path (fst rc)\<rparr>], snd rc)
              else (fst acc, snd rc)
         else acc)"

text \<open>The double loop that looks for an own stone whose path the new river lengthens by
  more than two; it stops at the first one (\<open>blocks_us\<close>).\<close>

definition blocks_us_cell ::
  "string \<Rightarrow> board \<Rightarrow> board \<Rightarrow> int \<Rightarrow> int \<Rightarrow> int list \<Rightarrow> int \<times> int \<Rightarrow> bool \<times> cache
     \<Rightarrow> bool \<times> cache" where
  "blocks_us_cell player b board_copy rows cols score_cols xy acc =
     (let my_x = fst xy; my_y = snd xy;
          my_goals = get_my_goal_cells player rows cols score_cols
      in if fst acc then acc
         else if is_stone_of player (cell_at b my_x my_y) then
           let dist_before = bfs_distance_to_goals_cached (snd acc) b my_x my_y my_goals player rows
                          cols score_cols True;
               dist_after = bfs_distance_to_goals_cached (snd dist_before) board_copy my_x my_y my_goals
                         player rows cols score_cols True
           in (d_lt (d_add (distance (fst dist_before)) (Finite 2)) (distance (fst dist_after)), snd dist_after)
         else acc)"

definition defensive_orient ::
  "string \<Rightarrow> board \<Rightarrow> int \<Rightarrow> int \<Rightarrow> int list \<Rightarrow> Threat \<Rightarrow> Position \<Rightarrow> string
     \<Rightarrow> RiverOpportunity list \<times> cache \<Rightarrow> RiverOpportunity list \<times> cache" where
  "defensive_orient player b rows cols score_cols threat p orient acc =
     (let opponent = get_opponent player;
          opp_goals = get_opponent_goal_cells player rows cols score_cols;
          board_copy = set_cell b (px p) (py p)
                         ((cell_at b (px p) (py p))\<lparr>side := ''river'', orientation := orient\<rparr>);
          new_result = bfs_distance_to_goals_cached (snd acc) board_copy (threat_x threat)
                         (threat_y threat) opp_goals opponent rows cols score_cols True;
          bl = fold (blocks_us_cell player b board_copy rows cols score_cols)
                 (board_cells rows cols) (False, snd new_result)
      in if d_lt (d_add (threat_dist threat) (Finite 1)) (distance (fst new_result)) \<and> \<not> fst bl
         then (fst acc @ [\<lparr>ro_action = ''flip'', ro_from_x = px p, ro_from_y = py p,
                            ro_orientation = orient,
                            ro_value = d_mul (d_sub (distance (fst new_result)) (threat_dist threat))
                                         (Finite 2000),
                            ro_defensive = True\<rparr>], snd bl)
         else (fst acc, snd bl))"

text \<open>The positions \<open>path[1] .. path[size - 2]\<close> of a threat's path.\<close>

definition path_interior :: "Position list \<Rightarrow> Position list" where
  "path_interior ps = butlast (tl ps)"

definition defensive_threat ::
  "string \<Rightarrow> board \<Rightarrow> int \<Rightarrow> int \<Rightarrow> int list \<Rightarrow> Threat
     \<Rightarrow> RiverOpportunity list \<times> cache \<Rightarrow> RiverOpportunity list \<times> cache" where
  "defensive_threat player b rows cols score_cols threat acc =
     fold (\<lambda>p acc.
             if is_stone_of player (cell_at b (px p) (py p)) then
               defensive_orient player b rows cols score_cols threat p ''vertical''
                 (defensive_orient player b rows cols score_cols threat p ''horizontal'' acc)
             else acc)
       (path_interior (threat_path threat)) acc"

definition find_defensive_river_placements ::
  "string \<Rightarrow> cache \<Rightarrow> board \<Rightarrow> int \<Rightarrow> int \<Rightarrow> int list \<Rightarrow> RiverOpportunity list \<times> cache" where
  "find_defensive_river_placements player c b rows cols score_cols =
     (let th = fold (threat_cell player b rows cols score_cols) (board_cells rows cols) ([], c);
          r = fold (defensive_threat player b rows cols score_cols) (fst th) ([], snd th)
      in (sort_by_value (fst r), snd r))"

text \<open>
  The bonus a root move gets on top of its search score. \<open>b\<close> is the board of the
  decision and \<open>new_board\<close> the board after the move; the result is the new score and the
  cache, or \<open>None\<close> where the source throws.
\<close>

definition push_bonus ::
  "string \<Rightarrow> cache \<Rightarrow> board \<Rightarrow> board \<Rightarrow> move \<Rightarrow> int \<Rightarrow> int \<Rightarrow> int list \<Rightarrow> double
     \<Rightarrow> (double \<times> cache) option" where
  "push_bonus player c b new_board m rows cols score_cols score0 =
     do {
       from_x \<leftarrow> move_int m ''from_x'';
       from_y \<leftarrow> move_int m ''from_y'';
       to_x \<leftarrow> move_int m ''to_x'';
       to_y \<leftarrow> move_int m ''to_y'';
       pushed_x \<leftarrow> move_int m ''pushed_x'';
       pushed_y \<leftarrow> move_int m ''pushed_y'';
       let my_goals = get_my_goal_cells player rows cols score_cols;
       let dist_before = bfs_distance_to_goals_cached c b from_x from_y my_goals player rows cols
                      score_cols True;
       let dist_after = bfs_distance_to_goals_cached (snd dist_before) new_board to_x to_y my_goals player
                     rows cols score_cols True;
       let push_dist = \<bar>to_x - pushed_x\<bar> + \<bar>to_y - pushed_y\<bar>;
       if push_dist > 1 then
         let s1 = d_add score0 (Finite (real_of_int push_dist * 1000))
         in if is_my_score_cell pushed_x pushed_y player rows cols score_cols then
              Some (d_add s1 (Finite 50000000), snd dist_after)
            else if \<not> isEmpty (cell_at b from_x from_y) \<and> side (cell_at b from_x from_y) = ''stone''
            then
              let dist_after2 = bfs_distance_to_goals_cached (snd dist_after) new_board pushed_x pushed_y
                             my_goals player rows cols score_cols True
              in Some (if d_lt (distance (fst dist_after2)) (Finite 3)
                       then d_add s1 (Finite 80000) else s1, snd dist_after2)
            else Some (s1, snd dist_after)
       else
         Some (d_add score0
                 (if d_eq (distance (fst dist_before)) (Finite 0) then Finite 100
                  else d_mul (d_pow (d_sub (Finite 20) (d_min (distance (fst dist_after)) (Finite 20))) 2)
                         (Finite 500)),
               snd dist_after)
     }"

definition step_bonus :: "double \<Rightarrow> double \<Rightarrow> real \<Rightarrow> double \<Rightarrow> double" where
  "step_bonus dist_before dist_after urgency s =
     (if d_eq dist_after (Finite 0) \<and> d_lt (Finite 0) dist_before then d_add s (Finite (500000000 * urgency))
      else if d_eq dist_after (Finite 1) \<and> d_lt (Finite 1) dist_before
      then d_add s (Finite (50000000 * urgency))
      else if d_eq dist_after (Finite 2) \<and> d_lt (Finite 2) dist_before then d_add s (Finite 10000000)
      else if d_eq dist_after (Finite 3) \<and> d_lt (Finite 3) dist_before then d_add s (Finite 1000000)
      else if d_eq dist_after (Finite 4) \<and> d_lt (Finite 4) dist_before then d_add s (Finite 100000)
      else if d_eq dist_after (Finite 5) \<and> d_lt (Finite 5) dist_before then d_add s (Finite 10000)
      else s)"

definition move_bonus ::
  "string \<Rightarrow> cache \<Rightarrow> board \<Rightarrow> board \<Rightarrow> move \<Rightarrow> int \<Rightarrow> int \<Rightarrow> int list \<Rightarrow> real \<Rightarrow> double
     \<Rightarrow> (double \<times> cache) option" where
  "move_bonus player c b new_board m rows cols score_cols urgency score0 =
     do {
       from_x \<leftarrow> move_int m ''from_x'';
       from_y \<leftarrow> move_int m ''from_y'';
       to_x \<leftarrow> move_int m ''to_x'';
       to_y \<leftarrow> move_int m ''to_y'';
       let my_goals = get_my_goal_cells player rows cols score_cols;
       let move_dist = \<bar>from_x - to_x\<bar> + \<bar>from_y - to_y\<bar>;
       if \<not> isEmpty (cell_at b from_x from_y) \<and> side (cell_at b from_x from_y) = ''stone'' then
         let dist_before = bfs_distance_to_goals_cached c b from_x from_y my_goals player rows cols
                        score_cols True;
             dist_after = bfs_distance_to_goals_cached (snd dist_before) new_board to_x to_y my_goals player
                       rows cols score_cols True;
             improvement = d_sub (distance (fst dist_before)) (distance (fst dist_after));
             s1 = (if move_dist > 1
                   then d_add score0 (d_mul (d_pow improvement 3) (Finite 100000))
                   else d_add score0
                          (if d_eq (distance (fst dist_before)) (Finite 0) then Finite 100
                           else d_mul (d_pow (d_sub (Finite 20)
                                                (d_min (distance (fst dist_after)) (Finite 20))) 3)
                                  (Finite 500)))
         in Some (step_bonus (distance (fst dist_before)) (distance (fst dist_after)) urgency s1, snd dist_after)
       else Some (score0, c)
     }"

text \<open>The first of the leading \<open>n\<close> opportunities that names the flip, if any, adds its
  value (the \<^verbatim>\<open>break\<close> of the lookup loops).\<close>

definition lookup_bonus ::
  "nat \<Rightarrow> RiverOpportunity list \<Rightarrow> int \<Rightarrow> int \<Rightarrow> string \<Rightarrow> double \<Rightarrow> double" where
  "lookup_bonus n opps from_x from_y orient s =
     (case filter (\<lambda>opp. ro_from_x opp = from_x \<and> ro_from_y opp = from_y
                          \<and> ro_orientation opp = orient) (take n opps) of
        [] \<Rightarrow> s
      | opp # _ \<Rightarrow> d_add s (ro_value opp))"

definition flip_bonus ::
  "string \<Rightarrow> board \<Rightarrow> move \<Rightarrow> int \<Rightarrow> int \<Rightarrow> int list \<Rightarrow> RiverOpportunity list
     \<Rightarrow> RiverOpportunity list \<Rightarrow> double \<Rightarrow> double option" where
  "flip_bonus player b m rows cols score_cols river_opportunities defensive_rivers score0 =
     do {
       from_x \<leftarrow> move_int m ''from_x'';
       from_y \<leftarrow> move_int m ''from_y'';
       orient \<leftarrow> map_of m ''orientation'';
       let my_goals = get_my_goal_cells player rows cols score_cols;
       let s1 = lookup_bonus 3 river_opportunities from_x from_y orient score0;
       let s2 = lookup_bonus 4 defensive_rivers from_x from_y orient s1;
       Some (if \<not> isEmpty (cell_at b from_x from_y) \<and> \<bar>from_y - py (my_goals ! 0)\<bar> \<le> 4
             then d_add s2 (Finite 3000) else s2)
     }"

text \<open>One round of the loop over the root moves: the search below the move, the bonus of
  its category, the best moves so far and the new \<open>alpha\<close>.\<close>

record root_state =
  best_score :: double
  best_moves :: "move list"
  root_alpha :: double
  root_cache :: cache

definition root_move ::
  "string \<Rightarrow> board \<Rightarrow> int \<Rightarrow> int \<Rightarrow> int list \<Rightarrow> RiverOpportunity list \<Rightarrow> RiverOpportunity list
     \<Rightarrow> move \<Rightarrow> root_state \<Rightarrow> root_state option" where
  "root_move player b rows cols score_cols river_opportunities defensive_rivers m st =
     do {
       ap \<leftarrow> apply_move (root_cache st) b m player rows cols score_cols;
       let new_board = fst ap;
       sr \<leftarrow> minimax player rows cols score_cols 1 (snd ap) new_board (root_alpha st) PInf False;
       let my_score_row = (if player = ''circle'' then top_score_row else bottom_score_row rows);
       let my_scoring_count = scoring_stones new_board player my_score_row score_cols;
       let urgency = 2 + real my_scoring_count;
       action \<leftarrow> map_of m ''action'';
       from_x \<leftarrow> move_int m ''from_x'';
       from_y \<leftarrow> move_int m ''from_y'';
       bonus \<leftarrow> (if action = ''push'' \<and> map_of m ''pushed_x'' \<noteq> None then
                   push_bonus player (snd sr) b new_board m rows cols score_cols (fst sr)
                 else if action = ''move'' \<and> map_of m ''to_x'' \<noteq> None then
                   move_bonus player (snd sr) b new_board m rows cols score_cols urgency (fst sr)
                 else if action = ''flip'' \<and> map_of m ''orientation'' \<noteq> None then
                   map_option (\<lambda>s. (s, snd sr))
                     (flip_bonus player b m rows cols score_cols river_opportunities
                        defensive_rivers (fst sr))
                 else if action = ''rotate'' then Some (d_add (fst sr) (Finite 1000), snd sr)
                 else Some sr);
       let score1 = fst bonus;
       Some (if d_lt (best_score st) score1 then
               \<lparr>best_score = score1, best_moves = [m],
                 root_alpha = d_max (root_alpha st) score1, root_cache = snd bonus\<rparr>
             else if d_lt (d_abs (d_sub score1 (best_score st))) (Finite 100) then
               \<lparr>best_score = best_score st, best_moves = best_moves st @ [m],
                 root_alpha = d_max (root_alpha st) score1, root_cache = snd bonus\<rparr>
             else
               \<lparr>best_score = best_score st, best_moves = best_moves st,
                 root_alpha = d_max (root_alpha st) score1, root_cache = snd bonus\<rparr>)
     }"

fun root_moves ::
  "string \<Rightarrow> board \<Rightarrow> int \<Rightarrow> int \<Rightarrow> int list \<Rightarrow> RiverOpportunity list \<Rightarrow> RiverOpportunity list
     \<Rightarrow> move list \<Rightarrow> root_state \<Rightarrow> root_state option" where
  "root_moves player b rows cols score_cols river_opportunities defensive_rivers [] st = Some st"
| "root_moves player b rows cols score_cols river_opportunities defensive_rivers (m # ms) st =
     (case root_move player b rows cols score_cols river_opportunities defensive_rivers m st of
        None \<Rightarrow> None
      | Some st' \<Rightarrow>
          root_moves player b rows cols score_cols river_opportunities defensive_rivers ms st')"

text \<open>Whether a best move travels more than one cell; \<open>None\<close> where a lookup throws.\<close>

definition is_river_move :: "move \<Rightarrow> bool option" where
  "is_river_move m =
     do {
       action \<leftarrow> map_of m ''action'';
       if (action = ''push'' \<or> action = ''move'') \<and> map_of m ''to_x'' \<noteq> None
          \<and> map_of m ''from_x'' \<noteq> None
       then do {
         fx \<leftarrow> move_int m ''from_x'';
         fy \<leftarrow> move_int m ''from_y'';
         tx \<leftarrow> move_int m ''to_x'';
         ty \<leftarrow> move_int m ''to_y'';
         Some (\<bar>fx - tx\<bar> + \<bar>fy - ty\<bar> > 1)
       } else Some False
     }"

fun river_moves_of :: "move list \<Rightarrow> move list option" where
  "river_moves_of [] = Some []"
| "river_moves_of (m # ms) =
     do {
       r \<leftarrow> is_river_move m;
       rest \<leftarrow> river_moves_of ms;
       Some (if r then m # rest else rest)
     }"

text \<open>\<^verbatim>\<open>xs[dist(rng)]\<close> with a uniform distribution over \<open>0 .. size - 1\<close>: the draw \<open>r\<close> is
  any number, the index its remainder.\<close>

definition pick :: "'a list \<Rightarrow> nat \<Rightarrow> 'a" where
  "pick xs r = xs ! (r mod length xs)"

text \<open>
  Steps 2 to 4 of a decision: the two lists of river opportunities, the loop over the
  root moves and the choice among the best moves. The search below a root move has depth
  \<open>MAX_DEPTH - 1 = 1\<close>.
\<close>

definition choose_search ::
  "string \<Rightarrow> board \<Rightarrow> int \<Rightarrow> int \<Rightarrow> int list \<Rightarrow> move list \<Rightarrow> nat \<Rightarrow> (move \<times> cache) option" where
  "choose_search player b rows cols score_cols valid_moves r1 =
     (let ro = find_river_creation_opportunities player [] b rows cols score_cols;
          dr = find_defensive_river_placements player (snd ro) b rows cols score_cols
      in do {
           st \<leftarrow> root_moves player b rows cols score_cols (fst ro) (fst dr) valid_moves
                  \<lparr>best_score = MInf, best_moves = [], root_alpha = MInf, root_cache = snd dr\<rparr>;
           if best_moves st \<noteq> [] then do {
             river_moves \<leftarrow> river_moves_of (best_moves st);
             Some (if river_moves \<noteq> [] then pick river_moves r1 else pick (best_moves st) r1,
                   root_cache st)
           } else Some (pick valid_moves r1, root_cache st)
         })"

section \<open>Repetition avoidance\<close>

text \<open>
  The comparison of a past move with a move \<open>m\<close>: action and origin, the destination
  when \<open>m\<close> has one, the orientation when \<open>m\<close> has one. \<^verbatim>\<open>&&\<close> stops at the first
  operand that is false; an \<^verbatim>\<open>at\<close> on a missing key throws (\<open>None\<close>).
\<close>

definition eq_at :: "move \<Rightarrow> move \<Rightarrow> string \<Rightarrow> bool option" where
  "eq_at past_move m key =
     do { a \<leftarrow> map_of past_move key; b \<leftarrow> map_of m key; Some (a = b) }"

definition and_then :: "bool option \<Rightarrow> bool option \<Rightarrow> bool option" where
  "and_then a b = (case a of None \<Rightarrow> None | Some v \<Rightarrow> if v then b else Some False)"

definition same_move :: "move \<Rightarrow> move \<Rightarrow> bool option" where
  "same_move past_move m =
     do {
       same \<leftarrow> and_then (eq_at past_move m ''action'')
                 (and_then (eq_at past_move m ''from_x'') (eq_at past_move m ''from_y''));
       same1 \<leftarrow> (if same \<and> map_of m ''to_x'' \<noteq> None then
                   and_then (Some (map_of past_move ''to_x'' \<noteq> None))
                     (and_then (eq_at past_move m ''to_x'') (eq_at past_move m ''to_y''))
                 else Some same);
       (if same1 \<and> map_of m ''orientation'' \<noteq> None then
          and_then (Some (map_of past_move ''orientation'' \<noteq> None))
            (eq_at past_move m ''orientation'')
        else Some same1)
     }"

fun move_count :: "move list \<Rightarrow> move \<Rightarrow> nat option" where
  "move_count [] m = Some 0"
| "move_count (past_move # rest) m =
     do {
       same \<leftarrow> same_move past_move m;
       n \<leftarrow> move_count rest m;
       Some (if same then Suc n else n)
     }"

definition repetition_limit :: nat where
  "repetition_limit = 2"

fun alt_moves_of :: "move list \<Rightarrow> move list \<Rightarrow> move list option" where
  "alt_moves_of history [] = Some []"
| "alt_moves_of history (m # ms) =
     do {
       m_count \<leftarrow> move_count history m;
       rest \<leftarrow> alt_moves_of history ms;
       Some (if m_count \<le> repetition_limit then m # rest else rest)
     }"

text \<open>The history after \<^verbatim>\<open>push_back\<close>, with its oldest entry dropped when it has grown
  beyond \<open>n\<close> entries.\<close>

definition push_capped :: "nat \<Rightarrow> move list \<Rightarrow> move \<Rightarrow> move list" where
  "push_capped n history m =
     (if length (history @ [m]) > n then tl (history @ [m]) else history @ [m])"

text \<open>
  The block \<open>REPETITION AVOIDANCE\<close> of \<open>choose\<close>: from the history, the move chosen by
  the search and the legal moves to the move returned and the new history; \<open>r2\<close> is the
  draw among the alternatives.
\<close>

definition avoid_repetition ::
  "move list \<Rightarrow> move \<Rightarrow> move list \<Rightarrow> nat \<Rightarrow> (move \<times> move list) option" where
  "avoid_repetition old_history chosen_move valid_moves r2 =
     (let history = push_capped 6 old_history chosen_move
      in do {
           n \<leftarrow> move_count history chosen_move;
           if n > repetition_limit then do {
             alt_moves \<leftarrow> alt_moves_of history valid_moves;
             Some (if alt_moves \<noteq> []
                   then (pick alt_moves r2, butlast history @ [pick alt_moves r2])
                   else (chosen_move, history))
           } else Some (chosen_move, history)
         })"

section \<open>One decision\<close>

record Move =
  mv_action :: string
  from_pos :: "int list"
  to_pos :: "int list"
  pushed_to :: "int list"
  mv_orientation :: string

text \<open>\<open>Move()\<close>, the value of the default constructor.\<close>

definition Move_default :: Move where
  "Move_default =
     \<lparr>mv_action = '''', from_pos = [0, 0], to_pos = [0, 0], pushed_to = [0, 0],
      mv_orientation = ''''\<rparr>"

definition to_Move :: "move \<Rightarrow> Move option" where
  "to_Move m =
     do {
       action \<leftarrow> map_of m ''action'';
       from_x \<leftarrow> move_int m ''from_x'';
       from_y \<leftarrow> move_int m ''from_y'';
       to_xy \<leftarrow> (if map_of m ''to_x'' \<noteq> None
                 then do { x \<leftarrow> move_int m ''to_x''; y \<leftarrow> move_int m ''to_y''; Some [x, y] }
                 else Some [0, 0]);
       pushed_xy \<leftarrow> (if map_of m ''pushed_x'' \<noteq> None
                     then do { x \<leftarrow> move_int m ''pushed_x''; y \<leftarrow> move_int m ''pushed_y'';
                               Some [x, y] }
                     else Some [0, 0]);
       Some \<lparr>mv_action = action, from_pos = [from_x, from_y], to_pos = to_xy,
              pushed_to = pushed_xy,
              mv_orientation = (case map_of m ''orientation'' of Some v \<Rightarrow> v | None \<Rightarrow> '''')\<rparr>
     }"

text \<open>The state of the agent that a decision reads and writes: the count of opening
  moves played (\<open>moves\<close> in the source) and the history (\<open>last_moves\<close>).\<close>

record agent =
  opening_count :: int
  last_moves :: "move list"

type_synonym py_cell = "(string \<times> string) list"

definition convert_cell :: "py_cell \<Rightarrow> Cell" where
  "convert_cell cell_dict =
     (if cell_dict = [] then Cell_empty
      else \<lparr>owner = (case map_of cell_dict ''owner'' of Some v \<Rightarrow> v | None \<Rightarrow> ''''),
             side = (case map_of cell_dict ''side'' of Some v \<Rightarrow> v | None \<Rightarrow> ''''),
             orientation = (case map_of cell_dict ''orientation'' of Some v \<Rightarrow> v | None \<Rightarrow> '''')\<rparr>)"

definition convert_board :: "py_cell list list \<Rightarrow> int \<Rightarrow> int \<Rightarrow> board" where
  "convert_board py_board rows cols =
     map (\<lambda>y. map (\<lambda>x. convert_cell (py_board ! nat y ! nat x)) [0..cols - 1]) [0..rows - 1]"

definition opening_book :: "string \<Rightarrow> move list" where
  "opening_book player =
     (if player = ''square'' then
        [[(''action'', ''flip''), (''from_x'', ''3''), (''from_y'', ''3''),
          (''orientation'', ''horizontal'')],
         [(''action'', ''move''), (''from_x'', ''3''), (''from_y'', ''4''), (''to_x'', ''0''),
          (''to_y'', ''3'')],
         [(''action'', ''flip''), (''from_x'', ''0''), (''from_y'', ''3''),
          (''orientation'', ''vertical'')],
         [(''action'', ''move''), (''from_x'', ''4''), (''from_y'', ''3''), (''to_x'', ''0''),
          (''to_y'', ''7'')]]
      else
        [[(''action'', ''flip''), (''from_x'', ''3''), (''from_y'', ''9''),
          (''orientation'', ''horizontal'')],
         [(''action'', ''move''), (''from_x'', ''3''), (''from_y'', ''8''), (''to_x'', ''0''),
          (''to_y'', ''9'')],
         [(''action'', ''flip''), (''from_x'', ''0''), (''from_y'', ''9''),
          (''orientation'', ''vertical'')],
         [(''action'', ''move''), (''from_x'', ''4''), (''from_y'', ''9''), (''to_x'', ''0''),
          (''to_y'', ''5'')]])"

text \<open>
  Whether the opening book applies: there is a scripted move left and applying it
  changes some cell of the board. \<open>None\<close> when applying it throws.
\<close>

definition opening_applies :: "string \<Rightarrow> agent \<Rightarrow> board \<Rightarrow> int \<Rightarrow> int \<Rightarrow> int list \<Rightarrow> bool option" where
  "opening_applies player st b rows cols score_cols =
     (if opening_count st < int (length (opening_book player)) then
        case apply_move [] b (opening_book player ! nat (opening_count st)) player rows cols
               score_cols of
          None \<Rightarrow> None
        | Some r \<Rightarrow>
            Some (list_ex (\<lambda>xy. cell_at b (fst xy) (snd xy) \<noteq> cell_at (fst r) (fst xy) (snd xy))
                    (board_cells rows cols))
      else Some False)"

text \<open>
  \<open>choose_move\<close> is \<^verbatim>\<open>StudentAgent::choose\<close>: one decision. It clears the cache,
  converts the snapshot, plays the opening
  book while it applies, returns \<open>Move()\<close> when there is no legal move, and otherwise
  searches, avoids repetition and converts the move. \<open>r1\<close> and \<open>r2\<close> are the two draws
  of the random generator. The remaining times and the flag \<open>avoid_repeat\<close> of the
  source are never read and are left out.
\<close>

definition choose_move ::
  "string \<Rightarrow> agent \<Rightarrow> py_cell list list \<Rightarrow> int \<Rightarrow> int \<Rightarrow> int list \<Rightarrow> nat \<Rightarrow> nat
     \<Rightarrow> (Move \<times> agent \<times> cache) option" where
  "choose_move player st py_board rows cols score_cols r1 r2 =
     (let b = convert_board py_board rows cols
      in case opening_applies player st b rows cols score_cols of
           None \<Rightarrow> None
         | Some applies \<Rightarrow>
             if applies then
               (let candidate = opening_book player ! nat (opening_count st)
                in map_option
                     (\<lambda>result. (result,
                        st\<lparr>opening_count := opening_count st + 1,
                           last_moves := push_capped 3 (last_moves st) candidate\<rparr>,
                        []))
                     (to_Move candidate))
             else
               (let valid_moves = generate_all_valid_moves b player rows cols score_cols
                in if valid_moves = [] then Some (Move_default, st, [])
                   else do {
                     found \<leftarrow> choose_search player b rows cols score_cols valid_moves r1;
                     av \<leftarrow> avoid_repetition (last_moves st) (fst found) valid_moves r2;
                     result \<leftarrow> to_Move (fst av);
                     Some (result, st\<lparr>last_moves := snd av\<rparr>, snd found)
                   }))"

section \<open>Properties of the river flow\<close>

text \<open>
  C7. The flow resolver returns on every board, entry position and side, also when the
  rivers form a cycle, and its result has no duplicate position. That it returns is the
  content of the two termination proofs above: \<open>flow_scan\<close> walks towards the edge of
  the board, and every round of \<open>flow_loop\<close> either shortens the queue or marks one more
  of the finitely many cells of the board as visited. The result is the value of a total
  function, and it is duplicate-free.
\<close>

theorem get_river_flow_destinations_distinct:
  "distinct (get_river_flow_destinations b rx ry sx sy player rows cols score_cols river_push)"
  by (simp add: get_river_flow_destinations_def remove_duplicates_distinct)

definition example_path_board :: board where
  "example_path_board =
     [[Cell_empty, \<lparr>owner = ''circle'', side = ''river'', orientation = ''horizontal''\<rparr>,
       Cell_empty],
      [\<lparr>owner = ''circle'', side = ''stone'', orientation = ''''\<rparr>, Cell_empty, Cell_empty],
      [Cell_empty, Cell_empty, Cell_empty],
      [Cell_empty, Cell_empty, Cell_empty],
      [Cell_empty, Cell_empty, Cell_empty],
      [Cell_empty, Cell_empty, Cell_empty]]"

text \<open>
  C10, as stated, fails in its last part: the result can contain the source cell. The
  path search passes the cell it has reached as the source, and that cell is empty from
  the second node on. On the board above the search from the circle stone at \<open>(0, 1)\<close>
  to the goal cell \<open>(2, 2)\<close> reaches the empty cell \<open>(0, 0)\<close> at distance 1, finds the
  horizontal river at \<open>(1, 0)\<close> next to it and asks for the flow from \<open>(1, 0)\<close> with
  source \<open>(0, 0)\<close>; the flow runs to both sides of the river and returns the source
  cell. The search goes on to distance 3, so every node of distance 1 is expanded.
\<close>

theorem get_river_flow_destinations_source_counterexample:
  "get_river_flow_destinations example_path_board 1 0 0 0 ''circle'' 6 3 [2] False
     = [\<lparr>px = 2, py = 0\<rparr>, \<lparr>px = 0, py = 0\<rparr>]
   \<and> isEmpty (cell_at example_path_board 0 0)
   \<and> bfs_distance_to_goals example_path_board 0 1 (get_my_goal_cells ''circle'' 6 3 [2])
         ''circle'' 6 3 [2] True
     = \<lparr>distance = Finite 3,
         path = [\<lparr>px = 0, py = 1\<rparr>, \<lparr>px = 1, py = 1\<rparr>, \<lparr>px = 2, py = 1\<rparr>,
                 \<lparr>px = 2, py = 2\<rparr>]\<rparr>"
  by code_simp

text \<open>
  C10, amended. At every call the program makes, every returned position is within the
  board and empty on the input board: the path search and the flow of a move call with
  \<open>river_push = false\<close>, and the one river push of the move generator passes the cell of
  the piece that pushes as the source. So the result holds no occupied cell: not the
  entry cell when a river stands on it, and not the source cell when a piece stands on
  it. An empty source cell can be returned.
\<close>

theorem get_river_flow_destinations_empty_cells:
  assumes "river_push \<longrightarrow> \<not> isEmpty (cell_at b sx sy)"
    and "p \<in> set (get_river_flow_destinations b rx ry sx sy player rows cols score_cols river_push)"
  shows "in_bounds (px p) (py p) rows cols \<and> isEmpty (cell_at b (px p) (py p))
         \<and> (\<not> isEmpty (cell_at b rx ry) \<longrightarrow> p \<noteq> \<lparr>px = rx, py = ry\<rparr>)
         \<and> (\<not> isEmpty (cell_at b sx sy) \<longrightarrow> p \<noteq> \<lparr>px = sx, py = sy\<rparr>)"
proof -
  have "landing_ok b player rows cols score_cols p"
    using get_river_flow_destinations_landing [OF assms(1)] assms(2)
    by (simp add: list_all_iff)
  then show ?thesis
    by (auto simp: landing_ok_def)
qed

theorem get_river_flow_destinations_empty_cells_witness:
  "\<not> isEmpty (cell_at [[\<lparr>owner = ''circle'', side = ''river'', orientation = ''horizontal''\<rparr>,
                         \<lparr>owner = ''square'', side = ''stone'', orientation = ''''\<rparr>,
                         Cell_empty]] 0 0)
   \<and> \<lparr>px = 2, py = 0\<rparr> \<in> set (get_river_flow_destinations
         [[\<lparr>owner = ''circle'', side = ''river'', orientation = ''horizontal''\<rparr>,
           \<lparr>owner = ''square'', side = ''stone'', orientation = ''''\<rparr>,
           Cell_empty]] 1 0 0 0 ''square'' 1 3 [] True)
   \<and> in_bounds 2 0 1 3
   \<and> isEmpty (cell_at [[\<lparr>owner = ''circle'', side = ''river'', orientation = ''horizontal''\<rparr>,
                         \<lparr>owner = ''square'', side = ''stone'', orientation = ''''\<rparr>,
                         Cell_empty]] 2 0)"
proof -
  let ?b = "[[\<lparr>owner = ''circle'', side = ''river'', orientation = ''horizontal''\<rparr>,
              \<lparr>owner = ''square'', side = ''stone'', orientation = ''''\<rparr>,
              Cell_empty]]"
  have src: "True \<longrightarrow> \<not> isEmpty (cell_at ?b 0 0)"
    by (simp add: cell_at_def isEmpty_def)
  have mem: "\<lparr>px = 2, py = 0\<rparr> \<in> set (get_river_flow_destinations ?b 1 0 0 0 ''square'' 1 3 [] True)"
    by code_simp
  show ?thesis
    using src mem get_river_flow_destinations_empty_cells [OF src mem]
    by simp
qed

section \<open>The win threshold\<close>

text \<open>
  C3. The threshold of temp2.cpp grows with the three board sizes of the game (13, 15
  and 17 rows); \<open>check_win\<close> of temp.cpp compares with the constant 4 whatever the
  board. On a board of 15 rows with four circle stones in the top score row the two
  disagree: temp.cpp reports a win for circle, temp2.cpp (threshold 5) none.
\<close>

theorem check_win_fixed_threshold:
  "check_win (replicate 2 (replicate 4 Cell_empty)
        @ [replicate 4 \<lparr>owner = ''circle'', side = ''stone'', orientation = ''''\<rparr>]
        @ replicate 12 (replicate 4 Cell_empty)) 15 4 [0, 1, 2, 3] = ''circle''
   \<and> check_win2 (replicate 2 (replicate 4 Cell_empty)
        @ [replicate 4 \<lparr>owner = ''circle'', side = ''stone'', orientation = ''''\<rparr>]
        @ replicate 12 (replicate 4 Cell_empty)) 15 4 [0, 1, 2, 3] = ''''
   \<and> get_win_count 13 = 4 \<and> get_win_count 15 = 5 \<and> get_win_count 17 = 6"
  by code_simp

section \<open>Properties of the move generator\<close>

lemma digit_chars_nth:
  assumes "n < 10"
  shows "is_digit (digit_chars ! n)" and "digit_value (digit_chars ! n) = n"
proof -
  from assms have "n \<in> {0, 1, 2, 3, 4, 5, 6, 7, 8, 9}" by auto
  then show "is_digit (digit_chars ! n)" and "digit_value (digit_chars ! n) = n"
    by (auto simp: is_digit_def digit_value_def digit_chars_def upt_conv_Cons)
qed

lemma string_of_nat_digits: "list_all is_digit (string_of_nat n)"
  by (induction n rule: string_of_nat.induct) (subst string_of_nat.simps, simp add: digit_chars_nth)

lemma string_of_nat_nonempty: "string_of_nat n \<noteq> []"
  by (subst string_of_nat.simps) simp

lemma digits_value_snoc: "digits_value (ds @ [c]) = 10 * digits_value ds + digit_value c"
  by (simp add: digits_value_def)

lemma digits_value_string_of_nat: "digits_value (string_of_nat n) = n"
proof (induction n rule: string_of_nat.induct)
  case (1 n)
  show ?case
  proof (cases "n < 10")
    case True
    then show ?thesis
      by (subst string_of_nat.simps) (simp add: digits_value_def digit_chars_nth)
  next
    case False
    then show ?thesis
      using 1 by (subst string_of_nat.simps) (simp add: digits_value_snoc digit_chars_nth)
  qed
qed

lemma hd_string_of_nat: "is_digit (hd (string_of_nat n))"
  using string_of_nat_digits [of n] string_of_nat_nonempty [of n]
  by (cases "string_of_nat n") simp_all

lemma is_digit_facts: "is_digit c \<Longrightarrow> \<not> isspace c \<and> c \<noteq> CHR 0x2D \<and> c \<noteq> CHR 0x2B"
  by (auto simp: is_digit_def digit_chars_def isspace_def)

text \<open>Reading back what \<open>to_string\<close> printed gives the number, for every 32-bit value.\<close>

lemma stoi_to_string:
  assumes "- 2147483648 \<le> i" and "i \<le> 2147483647"
  shows "stoi (to_string i) = Some i"
proof (cases "i < 0")
  case True
  have tw: "takeWhile is_digit (string_of_nat (nat (- i))) = string_of_nat (nat (- i))"
    using string_of_nat_digits by (simp add: list_all_iff)
  show ?thesis
    using True assms
    by (simp add: stoi_def to_string_def isspace_def tw string_of_nat_nonempty
        digits_value_string_of_nat Let_def)
next
  case False
  let ?s = "string_of_nat (nat i)"
  have tw: "takeWhile is_digit ?s = ?s"
    using string_of_nat_digits by (simp add: list_all_iff)
  have hd: "\<not> isspace (hd ?s)" "hd ?s \<noteq> CHR 0x2D" "hd ?s \<noteq> CHR 0x2B"
    using is_digit_facts [OF hd_string_of_nat [of "nat i"]] by simp_all
  have dw: "dropWhile isspace ?s = ?s"
    using hd(1) string_of_nat_nonempty [of "nat i"] by (cases ?s) simp_all
  show ?thesis
    using False assms hd(2,3)
    by (simp add: stoi_def to_string_def Let_def dw tw string_of_nat_nonempty
        digits_value_string_of_nat)
qed

lemma stoi_to_string_in_bounds:
  assumes "in_bounds x y rows cols" and "rows \<le> 2147483647" and "cols \<le> 2147483647"
  shows "stoi (to_string x) = Some x" and "stoi (to_string y) = Some y"
  using assms by (auto simp: in_bounds_def intro!: stoi_to_string)


definition target_ok :: "string \<Rightarrow> int \<Rightarrow> int \<Rightarrow> int list \<Rightarrow> Position \<Rightarrow> bool" where
  "target_ok player rows cols score_cols p =
     (in_bounds (px p) (py p) rows cols
      \<and> \<not> is_opponent_score_cell (px p) (py p) player rows cols score_cols)"

definition push_ok :: "board \<Rightarrow> string \<Rightarrow> int \<Rightarrow> int \<Rightarrow> int list \<Rightarrow> Position \<times> Position \<Rightarrow> bool" where
  "push_ok b player rows cols score_cols tp =
     (target_ok player rows cols score_cols (fst tp)
      \<and> target_ok player rows cols score_cols (snd tp)
      \<and> \<not> is_opponent_score_cell (px (snd tp)) (py (snd tp))
            (owner (cell_at b (px (fst tp)) (py (fst tp)))) rows cols score_cols)"

lemma landing_ok_target_ok:
  "landing_ok b player rows cols score_cols p \<Longrightarrow> target_ok player rows cols score_cols p"
  by (simp add: landing_ok_def target_ok_def)

lemma target_step_ok:
  assumes "\<not> isEmpty (cell_at b x y)" and "owner (cell_at b x y) = cp"
    and "list_all (target_ok cp rows cols sc) (fst acc)"
    and "list_all (push_ok b cp rows cols sc) (snd acc)"
  shows "list_all (target_ok cp rows cols sc) (fst (target_step b x y cp rows cols sc d acc))
       \<and> list_all (push_ok b cp rows cols sc) (snd (target_step b x y cp rows cols sc d acc))"
proof -
  let ?tx = "x + fst d" and ?ty = "y + snd d"
  have flow1: "list_all (target_ok cp rows cols sc)
                 (get_river_flow_destinations b ?tx ?ty x y cp rows cols sc False)"
    using get_river_flow_destinations_landing [of False b x y cp rows cols sc ?tx ?ty]
    by (auto simp: list_all_iff landing_ok_target_ok)
  have flow2: "list_all (\<lambda>q. in_bounds (px q) (py q) rows cols
                    \<and> \<not> is_opponent_score_cell (px q) (py q) pl rows cols sc)
                 (get_river_flow_destinations b ?tx ?ty x y pl rows cols sc True)" for pl
    using get_river_flow_destinations_landing [of True b x y pl rows cols sc ?tx ?ty] assms(1)
    by (auto simp: list_all_iff landing_ok_def)
  show ?thesis
    using assms flow1 flow2 [of "owner (cell_at b ?tx ?ty)"]
    by (auto simp: target_step_def Let_def target_ok_def push_ok_def list_all_iff)
qed

lemma fold_target_step_ok:
  assumes "\<not> isEmpty (cell_at b x y)" and "owner (cell_at b x y) = cp"
  shows "list_all (target_ok cp rows cols sc) (fst acc) \<Longrightarrow>
         list_all (push_ok b cp rows cols sc) (snd acc) \<Longrightarrow>
         list_all (target_ok cp rows cols sc) (fst (fold (target_step b x y cp rows cols sc) ds acc))
       \<and> list_all (push_ok b cp rows cols sc) (snd (fold (target_step b x y cp rows cols sc) ds acc))"
proof (induction ds arbitrary: acc)
  case Nil
  then show ?case by simp
next
  case (Cons d ds)
  show ?case
    using Cons.IH [of "target_step b x y cp rows cols sc d acc"]
      target_step_ok [OF assms Cons.prems, of d]
    by simp
qed


lemma mk_move_fields:
  "map_of (mk_move x y t) ''action'' = Some ''move''"
  "map_of (mk_move x y t) ''to_x'' = Some (to_string (px t))"
  "map_of (mk_move x y t) ''to_y'' = Some (to_string (py t))"
  "map_of (mk_move x y t) ''pushed_x'' = None"
  "map_of (mk_move x y t) ''pushed_y'' = None"
  by (simp_all add: mk_move_def)

lemma mk_push_fields:
  "map_of (mk_push x y tp) ''action'' = Some ''push''"
  "map_of (mk_push x y tp) ''to_x'' = Some (to_string (px (fst tp)))"
  "map_of (mk_push x y tp) ''to_y'' = Some (to_string (py (fst tp)))"
  "map_of (mk_push x y tp) ''pushed_x'' = Some (to_string (px (snd tp)))"
  "map_of (mk_push x y tp) ''pushed_y'' = Some (to_string (py (snd tp)))"
  by (simp_all add: mk_push_def)

lemma mk_other_fields:
  "map_of (mk_flip_to x y ori) ''action'' = Some ''flip''" "map_of (mk_flip_to x y ori) ''to_x'' = None"
  "map_of (mk_flip_to x y ori) ''pushed_x'' = None"
  "map_of (mk_flip x y) ''action'' = Some ''flip''" "map_of (mk_flip x y) ''to_x'' = None"
  "map_of (mk_flip x y) ''pushed_x'' = None"
  "map_of (mk_rotate x y) ''action'' = Some ''rotate''" "map_of (mk_rotate x y) ''to_x'' = None"
  "map_of (mk_rotate x y) ''pushed_x'' = None"
  by (simp_all add: mk_flip_to_def mk_flip_def mk_rotate_def)

text \<open>What a generated move is: a relocation to an allowed target, a push of an allowed
  pair, or a flip or rotation (which carry no destination).\<close>

lemma piece_moves_cases:
  assumes "\<not> isEmpty (cell_at b x y)" and "owner (cell_at b x y) = cp"
    and "m \<in> set (piece_moves b x y cp rows cols sc)"
  shows "(\<exists>t. m = mk_move x y t \<and> target_ok cp rows cols sc t)
       \<or> (\<exists>tp. m = mk_push x y tp \<and> push_ok b cp rows cols sc tp)
       \<or> (\<exists>ori. m = mk_flip_to x y ori) \<or> m = mk_flip x y \<or> m = mk_rotate x y"
proof -
  let ?t = "fold (target_step b x y cp rows cols sc) dirs4 ([], [])"
  have ok: "list_all (target_ok cp rows cols sc) (fst ?t)" "list_all (push_ok b cp rows cols sc) (snd ?t)"
    using fold_target_step_ok [OF assms(1,2), of rows cols sc "([], [])" dirs4] by simp_all
  from assms(3) consider "m \<in> mk_move x y ` set (fst ?t)" | "m \<in> mk_push x y ` set (snd ?t)"
    | "m \<in> {mk_flip_to x y ''horizontal'', mk_flip_to x y ''vertical'', mk_flip x y, mk_rotate x y}"
    by (auto simp: piece_moves_def Let_def split: if_splits)
  then show ?thesis
  proof cases
    case 1
    then show ?thesis using ok(1) by (auto simp: list_all_iff)
  next
    case 2
    then show ?thesis using ok(2) by (auto simp: list_all_iff)
  next
    case 3
    then show ?thesis by auto
  qed
qed

lemma generate_all_valid_moves_cases:
  assumes "m \<in> set (generate_all_valid_moves b cp rows cols sc)"
  shows "\<exists>x y. (\<exists>t. m = mk_move x y t \<and> target_ok cp rows cols sc t)
       \<or> (\<exists>tp. m = mk_push x y tp \<and> push_ok b cp rows cols sc tp)
       \<or> (\<exists>ori. m = mk_flip_to x y ori) \<or> m = mk_flip x y \<or> m = mk_rotate x y"
proof -
  from assms obtain x y where "\<not> isEmpty (cell_at b x y)" "owner (cell_at b x y) = cp"
    "m \<in> set (piece_moves b x y cp rows cols sc)"
    by (auto simp: generate_all_valid_moves_def split: if_splits)
  then show ?thesis
    using piece_moves_cases by blast
qed

text \<open>
  C4. Every move the generator returns is sound with respect to the forbidden scoring
  cells: the destination of a relocation or a push (a neighbouring cell or a cell reached
  through the rivers) is no opponent score cell for the moving side, and the cell a
  pushed piece lands on is an opponent score cell neither for the pushing side nor for
  the owner of the pushed piece. Flips and rotations carry no destination. The board
  dimensions are C++ \<^verbatim>\<open>int\<close>s, which is what the two bounds say.
\<close>

theorem generate_all_valid_moves_sound:
  assumes "rows \<le> 2147483647" and "cols \<le> 2147483647"
    and "m \<in> set (generate_all_valid_moves b current_player rows cols score_cols)"
  shows "(map_of m ''action'' = Some ''move'' \<or> map_of m ''action'' = Some ''push'' \<longrightarrow>
            (\<exists>tx ty. move_int m ''to_x'' = Some tx \<and> move_int m ''to_y'' = Some ty
               \<and> \<not> is_opponent_score_cell tx ty current_player rows cols score_cols))
       \<and> (map_of m ''action'' = Some ''push'' \<longrightarrow>
            (\<exists>tx ty qx qy. move_int m ''to_x'' = Some tx \<and> move_int m ''to_y'' = Some ty
               \<and> move_int m ''pushed_x'' = Some qx \<and> move_int m ''pushed_y'' = Some qy
               \<and> \<not> is_opponent_score_cell qx qy current_player rows cols score_cols
               \<and> \<not> is_opponent_score_cell qx qy (owner (cell_at b tx ty)) rows cols score_cols))
       \<and> (map_of m ''action'' \<noteq> Some ''move'' \<and> map_of m ''action'' \<noteq> Some ''push'' \<longrightarrow>
            map_of m ''to_x'' = None \<and> map_of m ''pushed_x'' = None)"
proof -
  from generate_all_valid_moves_cases [OF assms(3)] obtain x y where
    "(\<exists>t. m = mk_move x y t \<and> target_ok current_player rows cols score_cols t)
       \<or> (\<exists>tp. m = mk_push x y tp \<and> push_ok b current_player rows cols score_cols tp)
       \<or> (\<exists>ori. m = mk_flip_to x y ori) \<or> m = mk_flip x y \<or> m = mk_rotate x y"
    by blast
  then consider t where "m = mk_move x y t" "target_ok current_player rows cols score_cols t"
    | tp where "m = mk_push x y tp" "push_ok b current_player rows cols score_cols tp"
    | ori where "m = mk_flip_to x y ori" | "m = mk_flip x y" | "m = mk_rotate x y"
    by blast
  then show ?thesis
  proof cases
    case 1
    then show ?thesis
      using assms(1,2) stoi_to_string_in_bounds [of "px t" "py t" rows cols]
      by (simp add: mk_move_fields move_int_def target_ok_def)
  next
    case 2
    then show ?thesis
      using assms(1,2) stoi_to_string_in_bounds [of "px (fst tp)" "py (fst tp)" rows cols]
        stoi_to_string_in_bounds [of "px (snd tp)" "py (snd tp)" rows cols]
      by (simp add: mk_push_fields move_int_def target_ok_def push_ok_def)
  next
    case 3
    then show ?thesis by (simp add: mk_other_fields)
  next
    case 4
    then show ?thesis by (simp add: mk_other_fields)
  next
    case 5
    then show ?thesis by (simp add: mk_other_fields)
  qed
qed

definition example_push_board :: board where
  "example_push_board =
     [[\<lparr>owner = ''circle'', side = ''stone'', orientation = ''''\<rparr>,
       \<lparr>owner = ''square'', side = ''river'', orientation = ''horizontal''\<rparr>,
       Cell_empty, Cell_empty],
      [\<lparr>owner = ''square'', side = ''stone'', orientation = ''''\<rparr>,
       Cell_empty, Cell_empty, Cell_empty],
      [Cell_empty, Cell_empty, Cell_empty, Cell_empty]]"

theorem generate_all_valid_moves_sound_witness:
  "(3 :: int) \<le> 2147483647 \<and> (4 :: int) \<le> 2147483647
   \<and> hd (generate_all_valid_moves example_push_board ''circle'' 3 4 [1, 2])
       \<in> set (generate_all_valid_moves example_push_board ''circle'' 3 4 [1, 2])
   \<and> map_of (hd (generate_all_valid_moves example_push_board ''circle'' 3 4 [1, 2])) ''action''
       = Some ''push''
   \<and> (\<exists>tx ty qx qy.
         move_int (hd (generate_all_valid_moves example_push_board ''circle'' 3 4 [1, 2])) ''to_x''
           = Some tx
       \<and> move_int (hd (generate_all_valid_moves example_push_board ''circle'' 3 4 [1, 2])) ''to_y''
           = Some ty
       \<and> move_int (hd (generate_all_valid_moves example_push_board ''circle'' 3 4 [1, 2])) ''pushed_x''
           = Some qx
       \<and> move_int (hd (generate_all_valid_moves example_push_board ''circle'' 3 4 [1, 2])) ''pushed_y''
           = Some qy
       \<and> \<not> is_opponent_score_cell qx qy ''circle'' 3 4 [1, 2]
       \<and> \<not> is_opponent_score_cell qx qy (owner (cell_at example_push_board tx ty)) 3 4 [1, 2])"
proof -
  let ?ms = "generate_all_valid_moves example_push_board ''circle'' 3 4 [1, 2]"
  have "length ?ms = 3"
    by code_simp
  then have mem: "hd ?ms \<in> set ?ms"
    by (cases ?ms) simp_all
  have act: "map_of (hd ?ms) ''action'' = Some ''push''"
    by code_simp
  show ?thesis
    using mem act generate_all_valid_moves_sound [of 3 4 "hd ?ms" example_push_board "''circle''" "[1, 2]"]
    by simp
qed

section \<open>Properties of move application\<close>

lemma cell_at_set_cell_other:
  assumes "0 \<le> x" "0 \<le> y" "0 \<le> wx" "0 \<le> wy" "(x, y) \<noteq> (wx, wy)"
  shows "cell_at (set_cell b wx wy c) x y = cell_at b x y"
proof (cases "y = wy")
  case True
  then have "nat x \<noteq> nat wx" using assms by auto
  then show ?thesis
    using True
    by (cases "nat wy < length b") (simp_all add: cell_at_def set_cell_def list_update_beyond)
next
  case False
  then have "nat y \<noteq> nat wy" using assms by auto
  then show ?thesis
    by (simp add: cell_at_def set_cell_def)
qed

lemma set_cell_shape:
  "length (set_cell b x y c) = length b" "map length (set_cell b x y c) = map length b"
proof -
  show "length (set_cell b x y c) = length b"
    by (simp add: set_cell_def)
  show "map length (set_cell b x y c) = map length b"
    by (cases "nat y < length b")
       (simp_all add: set_cell_def map_update list_update_same_conv list_update_beyond)
qed

lemma apply_move_relocate:
  assumes "map_of m ''action'' = Some ''move''"
  shows "apply_move c b m current_player rows cols score_cols =
     do {
       from_x \<leftarrow> move_int m ''from_x'';
       from_y \<leftarrow> move_int m ''from_y'';
       to_x \<leftarrow> move_int m ''to_x'';
       to_y \<leftarrow> move_int m ''to_y'';
       Some (set_cell (set_cell b to_x to_y (cell_at b from_x from_y)) from_x from_y Cell_empty, c)
     }"
  using assms by (simp add: apply_move_def)

lemma apply_move_push:
  assumes "map_of m ''action'' = Some ''push''"
  shows "apply_move c b m current_player rows cols score_cols =
     do {
       from_x \<leftarrow> move_int m ''from_x'';
       from_y \<leftarrow> move_int m ''from_y'';
       to_x \<leftarrow> move_int m ''to_x'';
       to_y \<leftarrow> move_int m ''to_y'';
       pushed_x \<leftarrow> move_int m ''pushed_x'';
       pushed_y \<leftarrow> move_int m ''pushed_y'';
       let b1 = set_cell b pushed_x pushed_y (cell_at b to_x to_y);
       let b2 = set_cell b1 to_x to_y (cell_at b1 from_x from_y);
       let b3 = set_cell b2 from_x from_y Cell_empty;
       if side (cell_at b3 to_x to_y) = ''river''
       then Some (set_cell b3 to_x to_y
                    ((cell_at b3 to_x to_y)\<lparr>side := ''stone'', orientation := ''''\<rparr>),
                  [])
       else Some (b3, c)
     }"
  using assms by (simp add: apply_move_def)

lemma apply_move_flip:
  assumes "map_of m ''action'' = Some ''flip''"
  shows "apply_move c b m current_player rows cols score_cols =
     do {
       from_x \<leftarrow> move_int m ''from_x'';
       from_y \<leftarrow> move_int m ''from_y'';
       if side (cell_at b from_x from_y) = ''stone'' then do {
         orient \<leftarrow> map_of m ''orientation'';
         Some (set_cell b from_x from_y
                 ((cell_at b from_x from_y)\<lparr>side := ''river'', orientation := orient\<rparr>),
               [])
       } else
         Some (set_cell b from_x from_y
                 ((cell_at b from_x from_y)\<lparr>side := ''stone'', orientation := ''''\<rparr>),
               [])
     }"
  using assms by (simp add: apply_move_def)

lemma apply_move_rotate:
  assumes "map_of m ''action'' = Some ''rotate''"
  shows "apply_move c b m current_player rows cols score_cols =
     do {
       from_x \<leftarrow> move_int m ''from_x'';
       from_y \<leftarrow> move_int m ''from_y'';
       Some (set_cell b from_x from_y
               ((cell_at b from_x from_y)
                  \<lparr>orientation := (if orientation (cell_at b from_x from_y) = ''horizontal''
                                    then ''vertical'' else ''horizontal'')\<rparr>),
             [])
     }"
  using assms by (simp add: apply_move_def)

lemma apply_move_other:
  assumes "map_of m ''action'' = Some action" and "action \<notin> {''move'', ''push'', ''flip'', ''rotate''}"
  shows "apply_move c b m current_player rows cols score_cols =
     do {
       from_x \<leftarrow> move_int m ''from_x'';
       from_y \<leftarrow> move_int m ''from_y'';
       Some (b, c)
     }"
  using assms by (simp add: apply_move_def)

lemma apply_move_action:
  assumes "apply_move c b m current_player rows cols score_cols = Some r"
  obtains action where "map_of m ''action'' = Some action"
  using assms by (cases "map_of m ''action''") (simp_all add: apply_move_def)

definition move_on_board :: "move \<Rightarrow> bool" where
  "move_on_board m =
     list_all (\<lambda>key. case move_int m key of None \<Rightarrow> True | Some v \<Rightarrow> 0 \<le> v)
       [''from_x'', ''from_y'', ''to_x'', ''to_y'', ''pushed_x'', ''pushed_y'']"

definition move_names :: "move \<Rightarrow> string \<Rightarrow> string \<Rightarrow> int \<Rightarrow> int \<Rightarrow> bool" where
  "move_names m kx ky x y = (move_int m kx = Some x \<and> move_int m ky = Some y)"

text \<open>
  C9. \<open>apply_move\<close> takes the board as a value (the \<^verbatim>\<open>const\<close> reference of the source, which
  it copies first) and returns a new one, so the caller's board cannot change. The new
  board has the shape of the old one, and every cell that is not the origin, the
  destination or the push-landing cell named by the move is as it was. The move names
  cells by non-negative coordinates (\<open>move_on_board\<close>), as every move of the generator
  and of the opening book does.
\<close>

theorem apply_move_frame:
  assumes "apply_move c b m current_player rows cols score_cols = Some (b', c')"
    and "move_on_board m"
    and "0 \<le> x" and "0 \<le> y"
    and "\<not> move_names m ''from_x'' ''from_y'' x y"
    and "\<not> move_names m ''to_x'' ''to_y'' x y"
    and "\<not> move_names m ''pushed_x'' ''pushed_y'' x y"
  shows "cell_at b' x y = cell_at b x y \<and> length b' = length b \<and> map length b' = map length b"
proof -
  from assms(1) obtain action where action: "map_of m ''action'' = Some action"
    by (rule apply_move_action)
  consider "action = ''move''" | "action = ''push''" | "action = ''flip''" | "action = ''rotate''"
    | "action \<notin> {''move'', ''push'', ''flip'', ''rotate''}"
    by blast
  then show ?thesis
  proof cases
    case 1
    then show ?thesis
      using assms action
      by (auto simp: apply_move_relocate move_on_board_def move_names_def
            cell_at_set_cell_other set_cell_shape split: bind_splits)
  next
    case 2
    then show ?thesis
      using assms action
      by (auto simp: apply_move_push move_on_board_def move_names_def Let_def
            cell_at_set_cell_other set_cell_shape split: bind_splits if_splits)
  next
    case 3
    then show ?thesis
      using assms action
      by (auto simp: apply_move_flip move_on_board_def move_names_def
            cell_at_set_cell_other set_cell_shape split: bind_splits if_splits)
  next
    case 4
    then show ?thesis
      using assms action
      by (auto simp: apply_move_rotate move_on_board_def move_names_def
            cell_at_set_cell_other set_cell_shape split: bind_splits)
  next
    case 5
    then show ?thesis
      using assms action
      by (auto simp: apply_move_other split: bind_splits)
  qed
qed

definition example_stale_board :: board where
  "example_stale_board =
     [[\<lparr>owner = ''circle'', side = ''stone'', orientation = ''''\<rparr>, Cell_empty],
      [\<lparr>owner = ''circle'', side = ''stone'', orientation = ''''\<rparr>, Cell_empty],
      [Cell_empty, Cell_empty],
      [Cell_empty, Cell_empty],
      [Cell_empty, Cell_empty],
      [Cell_empty, Cell_empty]]"

theorem apply_move_frame_witness:
  "move_on_board (mk_move 0 1 \<lparr>px = 1, py = 1\<rparr>)
   \<and> \<not> move_names (mk_move 0 1 \<lparr>px = 1, py = 1\<rparr>) ''from_x'' ''from_y'' 0 0
   \<and> \<not> move_names (mk_move 0 1 \<lparr>px = 1, py = 1\<rparr>) ''to_x'' ''to_y'' 0 0
   \<and> \<not> move_names (mk_move 0 1 \<lparr>px = 1, py = 1\<rparr>) ''pushed_x'' ''pushed_y'' 0 0
   \<and> (case apply_move [] example_stale_board (mk_move 0 1 \<lparr>px = 1, py = 1\<rparr>)
              ''circle'' 6 2 [0] of
         None \<Rightarrow> False
       | Some r \<Rightarrow> cell_at (fst r) 0 0 = cell_at example_stale_board 0 0
                   \<and> length (fst r) = length example_stale_board)"
proof -
  let ?m = "mk_move 0 1 \<lparr>px = 1, py = 1\<rparr>"
  have h1: "move_on_board ?m"
    by code_simp
  have h2: "\<not> move_names ?m ''from_x'' ''from_y'' 0 0"
    by code_simp
  have h3: "\<not> move_names ?m ''to_x'' ''to_y'' 0 0"
    by code_simp
  have h4: "\<not> move_names ?m ''pushed_x'' ''pushed_y'' 0 0"
    by code_simp
  have "(case apply_move [] example_stale_board ?m ''circle'' 6 2 [0] of
           None \<Rightarrow> False | Some r \<Rightarrow> True)"
    by code_simp
  then obtain b' c' where r: "apply_move [] example_stale_board ?m ''circle'' 6 2 [0] = Some (b', c')"
    by (auto split: option.splits)
  show ?thesis
    using h1 h2 h3 h4 r apply_move_frame [OF r h1 _ _ h2 h3 h4]
    by simp
qed

text \<open>
  C1. A relocation leaves the cache as it is. On the board below the circle stone at
  \<open>(0, 0)\<close> is four steps from its goal cell \<open>(0, 2)\<close>, around the stone at \<open>(0, 1)\<close>. Once
  that distance is cached and the stone at \<open>(0, 1)\<close> has moved aside, the cache still holds
  the entry, and the cached query on the new board answers 4 where the search answers 2.
\<close>

theorem apply_move_keeps_stale_cache:
  "(let c1 = snd (bfs_distance_to_goals_cached [] example_stale_board 0 0
                    [\<lparr>px = 0, py = 2\<rparr>] ''circle'' 6 2 [0] True)
    in case apply_move c1 example_stale_board (mk_move 0 1 \<lparr>px = 1, py = 1\<rparr>)
              ''circle'' 6 2 [0] of
         None \<Rightarrow> False
       | Some r \<Rightarrow>
           map_of (snd r) (make_bfs_key 0 0 [\<lparr>px = 0, py = 2\<rparr>] True ''circle'') \<noteq> None
           \<and> distance (fst (bfs_distance_to_goals_cached (snd r) (fst r) 0 0
                               [\<lparr>px = 0, py = 2\<rparr>] ''circle'' 6 2 [0] True)) = Finite 4
           \<and> distance (bfs_distance_to_goals (fst r) 0 0
                          [\<lparr>px = 0, py = 2\<rparr>] ''circle'' 6 2 [0] True) = Finite 2)"
  by code_simp

section \<open>Properties of the evaluator\<close>

definition example_medium_board :: board where
  "example_medium_board =
     replicate 2 (replicate 4 Cell_empty)
     @ [replicate 4 \<lparr>owner = ''circle'', side = ''stone'', orientation = ''''\<rparr>]
     @ replicate 12 (replicate 4 Cell_empty)"

text \<open>
  C2. \<open>evaluate_board\<close> of temp.cpp compares both counts with the literal 4 whatever
  the board, where temp2.cpp compares them with \<open>get_win_count(rows)\<close>. On the board of
  15 rows with four circle stones in the top score row and no square stone in the bottom
  one, the threshold is five and neither count reaches it; all the same the evaluation is
  the win constant for the circle side and the loss constant for the square side, and no
  feature is computed (the cache comes back empty).
\<close>

theorem evaluate_board_fixed_threshold:
  "evaluate_board ''circle'' [] example_medium_board 15 4 [0, 1, 2, 3] = (WIN_SCORE, [])
   \<and> evaluate_board ''square'' [] example_medium_board 15 4 [0, 1, 2, 3] = (LOSE_SCORE, [])
   \<and> scoring_stones example_medium_board ''circle'' top_score_row [0, 1, 2, 3] = 4
   \<and> scoring_stones example_medium_board ''square'' (bottom_score_row 15) [0, 1, 2, 3] = 0
   \<and> get_win_count 15 = 5"
  by code_simp

section \<open>Properties of the search\<close>

definition example_search_board :: board where
  "example_search_board =
     [[Cell_empty, \<lparr>owner = ''square'', side = ''stone'', orientation = ''''\<rparr>],
      [Cell_empty, \<lparr>owner = ''circle'', side = ''stone'', orientation = ''''\<rparr>],
      [Cell_empty, Cell_empty],
      [Cell_empty, Cell_empty],
      [Cell_empty, Cell_empty],
      [Cell_empty, Cell_empty]]"

text \<open>The four boards the circle side can reach from it in one move.\<close>

definition example_search_left :: board where
  "example_search_left =
     [[Cell_empty, \<lparr>owner = ''square'', side = ''stone'', orientation = ''''\<rparr>],
      [\<lparr>owner = ''circle'', side = ''stone'', orientation = ''''\<rparr>, Cell_empty],
      [Cell_empty, Cell_empty],
      [Cell_empty, Cell_empty],
      [Cell_empty, Cell_empty],
      [Cell_empty, Cell_empty]]"

definition example_search_down :: board where
  "example_search_down =
     [[Cell_empty, \<lparr>owner = ''square'', side = ''stone'', orientation = ''''\<rparr>],
      [Cell_empty, Cell_empty],
      [Cell_empty, \<lparr>owner = ''circle'', side = ''stone'', orientation = ''''\<rparr>],
      [Cell_empty, Cell_empty],
      [Cell_empty, Cell_empty],
      [Cell_empty, Cell_empty]]"

definition example_search_flipped :: "string \<Rightarrow> board" where
  "example_search_flipped orient =
     [[Cell_empty, \<lparr>owner = ''square'', side = ''stone'', orientation = ''''\<rparr>],
      [Cell_empty, \<lparr>owner = ''circle'', side = ''river'', orientation = orient\<rparr>],
      [Cell_empty, Cell_empty],
      [Cell_empty, Cell_empty],
      [Cell_empty, Cell_empty],
      [Cell_empty, Cell_empty]]"

text \<open>The cache a search of depth 1 leaves behind on that board: the distance of the
  square stone on the last board evaluated, where the circle piece is a vertical river.\<close>

definition example_search_cache :: cache where
  "example_search_cache =
     [(''1,0:R1:square:0,3;'',
       \<lparr>distance = Finite 2,
         path = [\<lparr>px = 1, py = 0\<rparr>, \<lparr>px = 1, py = 1\<rparr>, \<lparr>px = 1, py = 3\<rparr>, \<lparr>px = 0, py = 3\<rparr>]\<rparr>)]"

lemma example_search_moves:
  "generate_all_valid_moves example_search_board ''circle'' 6 2 [0] =
     [mk_move 1 1 \<lparr>px = 0, py = 1\<rparr>, mk_move 1 1 \<lparr>px = 1, py = 2\<rparr>,
      mk_flip_to 1 1 ''horizontal'', mk_flip_to 1 1 ''vertical'']"
  "check_win example_search_board 6 2 [0] = ''''"
  by code_simp+

lemma example_search_apply:
  "apply_move c example_search_board (mk_move 1 1 \<lparr>px = 0, py = 1\<rparr>) ''circle'' 6 2 [0]
     = Some (example_search_left, c)"
  "apply_move c example_search_board (mk_move 1 1 \<lparr>px = 1, py = 2\<rparr>) ''circle'' 6 2 [0]
     = Some (example_search_down, c)"
  "apply_move c example_search_board (mk_flip_to 1 1 ''horizontal'') ''circle'' 6 2 [0]
     = Some (example_search_flipped ''horizontal'', [])"
  "apply_move c example_search_board (mk_flip_to 1 1 ''vertical'') ''circle'' 6 2 [0]
     = Some (example_search_flipped ''vertical'', [])"
  by code_simp+


text \<open>The evaluations of the first search, from the empty cache, in the order of the
  moves. The cache survives the two relocations and is cleared by the two flips.\<close>

definition example_search_cache1 :: cache where
  "example_search_cache1 = snd (evaluate_board ''circle'' [] example_search_left 6 2 [0])"

definition example_search_cache2 :: cache where
  "example_search_cache2 =
     snd (evaluate_board ''circle'' example_search_cache1 example_search_down 6 2 [0])"

definition example_search_cache3 :: cache where
  "example_search_cache3 =
     snd (evaluate_board ''circle'' [] (example_search_flipped ''horizontal'') 6 2 [0])"

lemma example_search_eval_first:
  "evaluate_board ''circle'' [] example_search_left 6 2 [0]
     = (Finite 8823000, example_search_cache1)"
  "evaluate_board ''circle'' example_search_cache1 example_search_down 6 2 [0]
     = (Finite 8823000, example_search_cache2)"
  "evaluate_board ''circle'' [] (example_search_flipped ''horizontal'') 6 2 [0]
     = (Finite 3000, example_search_cache3)"
  "evaluate_board ''circle'' [] (example_search_flipped ''vertical'') 6 2 [0]
     = (Finite (- 81000), example_search_cache)"
  by code_simp+

definition example_search_cache4 :: cache where
  "example_search_cache4 =
     snd (evaluate_board ''circle'' example_search_cache example_search_left 6 2 [0])"

definition example_search_cache5 :: cache where
  "example_search_cache5 =
     snd (evaluate_board ''circle'' example_search_cache4 example_search_down 6 2 [0])"

lemma example_search_eval_second:
  "evaluate_board ''circle'' example_search_cache example_search_left 6 2 [0]
     = (Finite 8772000, example_search_cache4)"
  "evaluate_board ''circle'' example_search_cache4 example_search_down 6 2 [0]
     = (Finite 8772000, example_search_cache5)"
  by code_simp+

lemma example_search_eval_plain:
  "fst (evaluate_board ''circle'' [] example_search_down 6 2 [0]) = Finite 8861000"
  by code_simp

lemma d_max_Finite: "d_max (Finite a) (Finite b) = Finite (max a b)" "d_max MInf (Finite b) = Finite b"
  by (simp_all add: d_max_def max_def)

lemma d_le_Finite: "d_le PInf (Finite a) = False"
  by (simp add: d_le_def)

text \<open>
  C6. The search is not a function of the board alone. On the board above the circle
  side has two relocations and two flips. The first search of depth 1 with the full
  window, from an empty cache, returns 8823000 and leaves the distance of the square
  stone on the last board it evaluated in the cache; the second search of the same board
  reads that entry on the boards of the two relocations, which do not clear the cache,
  and returns 8772000. Fixed-depth minimax without pruning, which scores every position
  for itself, gives 8861000: already the first search scored the second relocation with
  the distance cached on the board of the first.
\<close>

theorem minimax_repeated_invocations_differ:
  "minimax ''circle'' 6 2 [0] 1 [] example_search_board MInf PInf True
     = Some (Finite 8823000, example_search_cache)
   \<and> minimax ''circle'' 6 2 [0] 1 example_search_cache example_search_board MInf PInf True
     = Some (Finite 8772000, example_search_cache)
   \<and> plain_minimax ''circle'' 6 2 [0] 1 example_search_board True = Some (Finite 8861000)"
proof (intro conjI)
  show "minimax ''circle'' 6 2 [0] 1 [] example_search_board MInf PInf True
     = Some (Finite 8823000, example_search_cache)"
    by (simp add: minimax.simps minimax_max.simps example_search_moves example_search_apply
        example_search_eval_first d_max_Finite d_le_Finite)
  show "minimax ''circle'' 6 2 [0] 1 example_search_cache example_search_board MInf PInf True
     = Some (Finite 8772000, example_search_cache)"
    by (simp add: minimax.simps minimax_max.simps example_search_moves example_search_apply
        example_search_eval_first example_search_eval_second d_max_Finite d_le_Finite)
  show "plain_minimax ''circle'' 6 2 [0] 1 example_search_board True = Some (Finite 8861000)"
    using example_search_eval_plain
    by (simp add: example_search_moves example_search_apply
        example_search_eval_first d_max_Finite)
qed


section \<open>Properties of a decision\<close>

text \<open>A snapshot of three rows and three columns whose only piece is a square stone.\<close>

definition example_no_move_snapshot :: "py_cell list list" where
  "example_no_move_snapshot =
     [[[], [], []],
      [[], [(''owner'', ''square''), (''side'', ''stone'')], []],
      [[], [], []]]"

text \<open>
  C8. When the opening book does not apply (no scripted move is left, or the scripted
  move leaves the board as it is) and the move generator returns no move for the acting
  side, \<open>choose\<close> returns: its value is \<open>Move()\<close>, the move of the default constructor
  (empty action and orientation, all three positions \<open>(0, 0)\<close>), whatever the two random
  draws. The history and the count of opening moves are as before, and the cache is
  empty.
\<close>

theorem choose_move_no_legal_move:
  assumes "opening_applies player st (convert_board py_board rows cols) rows cols score_cols
             = Some False"
      and "generate_all_valid_moves (convert_board py_board rows cols) player rows cols score_cols
             = []"
    shows "choose_move player st py_board rows cols score_cols r1 r2 = Some (Move_default, st, [])"
  using assms by (simp add: choose_move_def Let_def)

theorem choose_move_no_legal_move_witness:
  "opening_applies ''circle'' \<lparr>opening_count = 4, last_moves = []\<rparr>
       (convert_board example_no_move_snapshot 3 3) 3 3 [1] = Some False
   \<and> generate_all_valid_moves (convert_board example_no_move_snapshot 3 3) ''circle'' 3 3 [1] = []
   \<and> choose_move ''circle'' \<lparr>opening_count = 4, last_moves = []\<rparr> example_no_move_snapshot
         3 3 [1] 0 0
       = Some (Move_default, \<lparr>opening_count = 4, last_moves = []\<rparr>, [])"
proof -
  have a: "opening_applies ''circle'' \<lparr>opening_count = 4, last_moves = []\<rparr>
       (convert_board example_no_move_snapshot 3 3) 3 3 [1] = Some False"
    by code_simp
  have b: "generate_all_valid_moves (convert_board example_no_move_snapshot 3 3) ''circle'' 3 3 [1]
             = []"
    by code_simp
  show ?thesis
    using choose_move_no_legal_move [OF a b] a b by simp
qed




























end
